theory Spec2Isabelle
  imports Main "HOL-Library.Multiset"
begin

section \<open>The data model (src/db.ts schema, server.ts requests and replies)\<close>

text \<open>
  The four tables of the schema. A column declared without \<open>NOT NULL\<close> holds
  \<open>string option\<close> (\<open>None\<close> is SQL NULL). Identifiers are SQLite INTEGERs,
  \<open>created_at\<close> is the value of CURRENT_TIMESTAMP at insertion, kept as a number
  of seconds (its text form orders the same way).
\<close>

record user_row =
  u_id :: int
  u_email :: string
  u_password :: string
  u_first_name :: "string option"
  u_last_name :: "string option"
  u_mobile :: "string option"
  u_blood_group :: "string option"
  u_personal_notes :: "string option"
  u_created_at :: nat

record session_row =
  s_id :: int
  s_user_id :: int
  s_title :: string
  s_created_at :: nat

record history_row =
  h_id :: int
  h_user_id :: int
  h_session_id :: "int option"
  h_role :: string
  h_content :: string
  h_created_at :: nat

record report_row =
  r_id :: int
  r_user_id :: int
  r_filename :: string
  r_analysis :: string
  r_created_at :: nat

text \<open>
  The store: each table is the list of its rows in rowid (insertion) order, with the
  AUTOINCREMENT counter that \<open>sqlite_sequence\<close> keeps for it.
\<close>

record db =
  users :: "user_row list"
  chat_sessions :: "session_row list"
  chat_history :: "history_row list"
  medical_reports :: "report_row list"
  seq_users :: int
  seq_chat_sessions :: int
  seq_chat_history :: int
  seq_medical_reports :: int

definition empty_db :: db where
  "empty_db = \<lparr>users = [], chat_sessions = [], chat_history = [], medical_reports = [],
     seq_users = 0, seq_chat_sessions = 0, seq_chat_history = 0, seq_medical_reports = 0\<rparr>"

text \<open>The payload that \<open>jwt.sign({ id, email }, JWT_SECRET)\<close> binds: \<open>req.user\<close>.\<close>

record claims =
  c_id :: int
  c_email :: string

text \<open>
  What is outside the repository is a parameter: the jsonwebtoken and bcryptjs
  functions the server calls, the process environment, and two properties of the
  storage engine (whether it enforces the declared foreign keys, and how it reads a
  text operand that is compared with an INTEGER column). \<open>jwt_sign\<close> also gets the
  clock (the library stamps the token); the bcrypt functions may reject their
  argument (\<open>Inl\<close> the error message), and \<open>bcrypt_hash\<close> gets the salt source.
\<close>

record libs =
  jwt_sign :: "claims \<Rightarrow> string \<Rightarrow> nat \<Rightarrow> string"
  jwt_verify :: "string \<Rightarrow> string \<Rightarrow> claims option"
  bcrypt_hash :: "string option \<Rightarrow> nat \<Rightarrow> string \<Rightarrow> string + string"
  bcrypt_compare :: "string option \<Rightarrow> string \<Rightarrow> string + bool"
  env_JWT_SECRET :: "string option"
  foreign_keys :: bool
  numeric_text :: "string \<Rightarrow> int option"

text \<open>What differs from one request to the next: CURRENT_TIMESTAMP and the salt.\<close>

record ctx =
  now :: nat
  salt :: string

datatype http_method = GET | POST | PUT

text \<open>
  A request after \<open>express.json()\<close> (and multer, for the upload) has parsed it. A body
  field is a string or \<open>None\<close>: absent or null, which the database driver binds as
  NULL and the password library rejects. The body's \<open>sessionId\<close> is a number or
  \<open>None\<close>, the query's a string or absent. \<open>req_method\<close> and \<open>req_path\<close> are what
  the router matches routes against, \<open>user\<close> is \<open>req.user\<close>.
\<close>

record request =
  req_method :: http_method
  req_path :: string
  authorization :: "string option"
  q_sessionId :: "string option"
  b_email :: "string option"
  b_password :: "string option"
  b_firstName :: "string option"
  b_lastName :: "string option"
  b_mobile :: "string option"
  b_bloodGroup :: "string option"
  b_personalNotes :: "string option"
  b_title :: "string option"
  b_role :: "string option"
  b_content :: "string option"
  b_sessionId :: "int option"
  b_analysis :: "string option"
  file_originalname :: "string option"
  user :: "claims option"

record login_user =
  lu_id :: int
  lu_email :: string
  lu_firstName :: "string option"
  lu_lastName :: "string option"

text \<open>The columns that GET /api/user/profile selects.\<close>

record profile =
  p_id :: int
  p_email :: string
  p_first_name :: "string option"
  p_last_name :: "string option"
  p_mobile :: "string option"
  p_blood_group :: "string option"
  p_personal_notes :: "string option"

datatype body =
    SendStatus
  | JsonError string
  | JsonId int
  | JsonSuccess
  | JsonLogin string login_user
  | JsonProfile "profile option"
  | JsonSessions "session_row list"
  | JsonHistory "history_row list"
  | JsonReports "report_row list"

text \<open>
  What a request ends in: a reply with its status, an exception that leaves the
  handler (what the framework does with it is not in the source), or no route.
\<close>

datatype reply = Reply nat body | Uncaught string | Unrouted

type_synonym handler = "libs \<Rightarrow> ctx \<Rightarrow> request \<Rightarrow> db \<Rightarrow> reply \<times> db"

section \<open>JavaScript and SQL helpers\<close>

text \<open>\<open>s.split(sep)\<close> for a one-character separator: never empty, keeps empty fields.\<close>

fun js_split :: "char \<Rightarrow> string \<Rightarrow> string list" where
  "js_split sep [] = [[]]"
| "js_split sep (c # cs) =
     (if c = sep then [] # js_split sep cs
      else (case js_split sep cs of [] \<Rightarrow> [[c]] | p # ps \<Rightarrow> (c # p) # ps))"

text \<open>\<open>xs[1]\<close>: \<open>undefined\<close> past the end.\<close>

fun second :: "'a list \<Rightarrow> 'a option" where
  "second (x # y # ys) = Some y"
| "second xs = None"

text \<open>Truthiness of a value that is a string or \<open>undefined\<close>.\<close>

fun truthy :: "string option \<Rightarrow> bool" where
  "truthy None = False"
| "truthy (Some s) = (s \<noteq> [])"

fun starts_with :: "string \<Rightarrow> string \<Rightarrow> bool" where
  "starts_with s [] = True"
| "starts_with [] (c # cs) = False"
| "starts_with (d # ds) (c # cs) = (d = c \<and> starts_with ds cs)"

text \<open>\<open>s.includes(sub)\<close>.\<close>

fun js_includes :: "string \<Rightarrow> string \<Rightarrow> bool" where
  "js_includes [] sub = (sub = [])"
| "js_includes (c # cs) sub = (starts_with (c # cs) sub \<or> js_includes cs sub)"

text \<open>
  \<open>ORDER BY created_at ASC\<close> and \<open>DESC\<close>. SQL leaves the order of rows with equal
  keys open; the model keeps them in rowid order.
\<close>

definition order_by_asc :: "('a \<Rightarrow> nat) \<Rightarrow> 'a list \<Rightarrow> 'a list" where
  "order_by_asc key rows = sort_key key rows"

definition order_by_desc :: "('a \<Rightarrow> nat) \<Rightarrow> 'a list \<Rightarrow> 'a list" where
  "order_by_desc key rows = rev (sort_key key (rev rows))"

text \<open>AUTOINCREMENT: one more than the largest rowid ever used.\<close>

definition next_rowid :: "int \<Rightarrow> int list \<Rightarrow> int" where
  "next_rowid seq ids = fold max ids seq + 1"

text \<open>
  \<open>session_id = ?\<close> with a text parameter: NULL equals nothing, and the text is read
  as a number (column affinity) before it is compared with a stored integer.
\<close>

definition session_id_eq :: "libs \<Rightarrow> int option \<Rightarrow> string \<Rightarrow> bool" where
  "session_id_eq L sid q =
     (case sid of None \<Rightarrow> False
      | Some n \<Rightarrow> (case numeric_text L q of None \<Rightarrow> False | Some k \<Rightarrow> n = k))"

section \<open>server.ts\<close>

definition JWT_SECRET :: "libs \<Rightarrow> string" where
  "JWT_SECRET L =
     (case env_JWT_SECRET L of
        None \<Rightarrow> ''super-secret-key''
      | Some s \<Rightarrow> if s = [] then ''super-secret-key'' else s)"

definition sendStatus :: "nat \<Rightarrow> db \<Rightarrow> reply \<times> db" where
  "sendStatus code d = (Reply code SendStatus, d)"

text \<open>
  The auth middleware, with the rest of the chain as \<open>next\<close>:
  \<open>token = authHeader && authHeader.split(' ')[1]\<close>.
\<close>

definition bearer :: "request \<Rightarrow> string option" where
  "bearer req =
     (case authorization req of
        None \<Rightarrow> None
      | Some authHeader \<Rightarrow> if authHeader = [] then Some [] else second (js_split CHR '' '' authHeader))"

definition authenticateToken ::
  "libs \<Rightarrow> request \<Rightarrow> (request \<Rightarrow> db \<Rightarrow> reply \<times> db) \<Rightarrow> db \<Rightarrow> reply \<times> db" where
  "authenticateToken L req next d =
     (let token = bearer req in
      if \<not> truthy token then sendStatus 401 d
      else (case jwt_verify L (the token) (JWT_SECRET L) of
              None \<Rightarrow> sendStatus 403 d
            | Some u \<Rightarrow> next (req\<lparr>user := Some u\<rparr>) d))"

text \<open>\<open>req.user.id\<close>; reading it with no \<open>req.user\<close> is a TypeError.\<close>

definition with_user :: "request \<Rightarrow> db \<Rightarrow> (int \<Rightarrow> reply \<times> db) \<Rightarrow> reply \<times> db" where
  "with_user req d k =
     (case user req of
        None \<Rightarrow> (Uncaught ''Cannot read properties of undefined'', d)
      | Some u \<Rightarrow> k (c_id u))"

subsection \<open>Auth routes\<close>

definition auth_register :: handler where
  "auth_register L c req d =
     (case bcrypt_hash L (b_password req) 10 (salt c) of
        Inl message \<Rightarrow>
          if js_includes message ''UNIQUE constraint failed''
          then (Reply 400 (JsonError ''An account with this email already exists. Please sign in instead.''), d)
          else (Reply 500 (JsonError message), d)
      | Inr hashedPassword \<Rightarrow>
          (case b_email req of
             None \<Rightarrow> (Reply 500 (JsonError ''NOT NULL constraint failed: users.email''), d)
           | Some email \<Rightarrow>
               if email \<in> set (map u_email (users d))
               then (Reply 400 (JsonError ''An account with this email already exists. Please sign in instead.''), d)
               else
                 (let lastInsertRowid = next_rowid (seq_users d) (map u_id (users d)) in
                  (Reply 201 (JsonId lastInsertRowid),
                   d\<lparr>users := users d @
                        [\<lparr>u_id = lastInsertRowid, u_email = email, u_password = hashedPassword,
                          u_first_name = b_firstName req, u_last_name = b_lastName req,
                          u_mobile = None, u_blood_group = None, u_personal_notes = None,
                          u_created_at = now c\<rparr>],
                      seq_users := lastInsertRowid\<rparr>))))"

text \<open>\<open>SELECT * FROM users WHERE email = ?\<close>, \<open>.get\<close>: the first row, if any.\<close>

definition user_by_email :: "db \<Rightarrow> string option \<Rightarrow> user_row option" where
  "user_by_email d e =
     (case e of None \<Rightarrow> None | Some email \<Rightarrow> find (\<lambda>u. u_email u = email) (users d))"

definition auth_login :: handler where
  "auth_login L c req d =
     (case user_by_email d (b_email req) of
        None \<Rightarrow> (Reply 401 (JsonError ''Invalid credentials''), d)
      | Some u \<Rightarrow>
          (case bcrypt_compare L (b_password req) (u_password u) of
             Inl message \<Rightarrow> (Uncaught message, d)
           | Inr ok \<Rightarrow>
               if \<not> ok then (Reply 401 (JsonError ''Invalid credentials''), d)
               else
                 (let token = jwt_sign L \<lparr>c_id = u_id u, c_email = u_email u\<rparr> (JWT_SECRET L) (now c) in
                  (Reply 200 (JsonLogin token
                     \<lparr>lu_id = u_id u, lu_email = u_email u,
                      lu_firstName = u_first_name u, lu_lastName = u_last_name u\<rparr>), d))))"

subsection \<open>User profile routes\<close>

definition profile_of :: "user_row \<Rightarrow> profile" where
  "profile_of u =
     \<lparr>p_id = u_id u, p_email = u_email u, p_first_name = u_first_name u,
      p_last_name = u_last_name u, p_mobile = u_mobile u, p_blood_group = u_blood_group u,
      p_personal_notes = u_personal_notes u\<rparr>"

definition user_profile_get :: handler where
  "user_profile_get L c req d =
     with_user req d (\<lambda>uid.
       (Reply 200 (JsonProfile (map_option profile_of (find (\<lambda>u. u_id u = uid) (users d)))), d))"

definition user_profile_put :: handler where
  "user_profile_put L c req d =
     with_user req d (\<lambda>uid.
       (Reply 200 JsonSuccess,
        d\<lparr>users := map (\<lambda>u. if u_id u = uid
                              then u\<lparr>u_first_name := b_firstName req, u_last_name := b_lastName req,
                                     u_mobile := b_mobile req, u_blood_group := b_bloodGroup req,
                                     u_personal_notes := b_personalNotes req\<rparr>
                              else u) (users d)\<rparr>))"

subsection \<open>Chat history routes\<close>

text \<open>The foreign keys of the schema, where the engine enforces them.\<close>

definition fk_user :: "libs \<Rightarrow> db \<Rightarrow> int \<Rightarrow> bool" where
  "fk_user L d uid = (foreign_keys L \<longrightarrow> uid \<in> set (map u_id (users d)))"

definition fk_session :: "libs \<Rightarrow> db \<Rightarrow> int option \<Rightarrow> bool" where
  "fk_session L d sid =
     (case sid of None \<Rightarrow> True
      | Some n \<Rightarrow> (foreign_keys L \<longrightarrow> n \<in> set (map s_id (chat_sessions d))))"

definition chat_sessions_get :: handler where
  "chat_sessions_get L c req d =
     with_user req d (\<lambda>uid.
       (Reply 200 (JsonSessions
          (order_by_desc s_created_at (filter (\<lambda>s. s_user_id s = uid) (chat_sessions d)))), d))"

definition chat_sessions_post :: handler where
  "chat_sessions_post L c req d =
     with_user req d (\<lambda>uid.
       (case b_title req of
          None \<Rightarrow> (Uncaught ''NOT NULL constraint failed: chat_sessions.title'', d)
        | Some title \<Rightarrow>
            if \<not> fk_user L d uid then (Uncaught ''FOREIGN KEY constraint failed'', d)
            else
              (let lastInsertRowid = next_rowid (seq_chat_sessions d) (map s_id (chat_sessions d)) in
               (Reply 200 (JsonId lastInsertRowid),
                d\<lparr>chat_sessions := chat_sessions d @
                     [\<lparr>s_id = lastInsertRowid, s_user_id = uid, s_title = title,
                       s_created_at = now c\<rparr>],
                   seq_chat_sessions := lastInsertRowid\<rparr>))))"

definition chat_history_get :: handler where
  "chat_history_get L c req d =
     with_user req d (\<lambda>uid.
       (let sessionId = q_sessionId req;
            history =
              (if truthy sessionId
               then order_by_asc h_created_at
                      (filter (\<lambda>h. h_user_id h = uid \<and> session_id_eq L (h_session_id h) (the sessionId))
                         (chat_history d))
               else order_by_asc h_created_at
                      (filter (\<lambda>h. h_user_id h = uid) (chat_history d)))
        in (Reply 200 (JsonHistory history), d)))"

definition chat_history_post :: handler where
  "chat_history_post L c req d =
     with_user req d (\<lambda>uid.
       (case b_role req of
          None \<Rightarrow> (Uncaught ''NOT NULL constraint failed: chat_history.role'', d)
        | Some role \<Rightarrow>
            (case b_content req of
               None \<Rightarrow> (Uncaught ''NOT NULL constraint failed: chat_history.content'', d)
             | Some content \<Rightarrow>
                 if \<not> (fk_user L d uid \<and> fk_session L d (b_sessionId req))
                 then (Uncaught ''FOREIGN KEY constraint failed'', d)
                 else
                   (let rowid = next_rowid (seq_chat_history d) (map h_id (chat_history d)) in
                    (Reply 200 JsonSuccess,
                     d\<lparr>chat_history := chat_history d @
                          [\<lparr>h_id = rowid, h_user_id = uid, h_session_id = b_sessionId req,
                            h_role = role, h_content = content, h_created_at = now c\<rparr>],
                        seq_chat_history := rowid\<rparr>)))))"

subsection \<open>Medical report routes\<close>

definition reports_upload :: handler where
  "reports_upload L c req d =
     with_user req d (\<lambda>uid.
       (let filename = (if truthy (file_originalname req) then the (file_originalname req)
                        else ''report.pdf'') in
        (case b_analysis req of
           None \<Rightarrow> (Uncaught ''NOT NULL constraint failed: medical_reports.analysis'', d)
         | Some analysis \<Rightarrow>
             if \<not> fk_user L d uid then (Uncaught ''FOREIGN KEY constraint failed'', d)
             else
               (let rowid = next_rowid (seq_medical_reports d) (map r_id (medical_reports d)) in
                (Reply 200 JsonSuccess,
                 d\<lparr>medical_reports := medical_reports d @
                      [\<lparr>r_id = rowid, r_user_id = uid, r_filename = filename,
                        r_analysis = analysis, r_created_at = now c\<rparr>],
                    seq_medical_reports := rowid\<rparr>)))))"

definition reports_get :: handler where
  "reports_get L c req d =
     with_user req d (\<lambda>uid.
       (Reply 200 (JsonReports
          (order_by_desc r_created_at (filter (\<lambda>r. r_user_id r = uid) (medical_reports d)))), d))"

subsection \<open>The application: routes and their middleware chains\<close>

datatype middleware = AuthenticateToken | UploadSingle string

text \<open>
  \<open>upload.single('report')\<close> fills \<open>req.body\<close> and \<open>req.file\<close> from the multipart
  form; the request of the model already carries them.
\<close>

fun run_chain ::
  "libs \<Rightarrow> middleware list \<Rightarrow> handler \<Rightarrow> ctx \<Rightarrow> request \<Rightarrow> db \<Rightarrow> reply \<times> db" where
  "run_chain L [] h c req d = h L c req d"
| "run_chain L (AuthenticateToken # ms) h c req d =
     authenticateToken L req (\<lambda>req'. run_chain L ms h c req') d"
| "run_chain L (UploadSingle field # ms) h c req d = run_chain L ms h c req d"

definition app_routes :: "(http_method \<times> string \<times> middleware list \<times> handler) list" where
  "app_routes =
     [(POST, ''/api/auth/register'', [], auth_register),
      (POST, ''/api/auth/login'', [], auth_login),
      (GET, ''/api/user/profile'', [AuthenticateToken], user_profile_get),
      (PUT, ''/api/user/profile'', [AuthenticateToken], user_profile_put),
      (GET, ''/api/chat/sessions'', [AuthenticateToken], chat_sessions_get),
      (POST, ''/api/chat/sessions'', [AuthenticateToken], chat_sessions_post),
      (GET, ''/api/chat/history'', [AuthenticateToken], chat_history_get),
      (POST, ''/api/chat/history'', [AuthenticateToken], chat_history_post),
      (POST, ''/api/reports/upload'', [AuthenticateToken, UploadSingle ''report''], reports_upload),
      (GET, ''/api/reports'', [AuthenticateToken], reports_get)]"

text \<open>
  The router: the first route whose method and path are the request's, with
  \<open>req.user\<close> unset on arrival. A request that matches no route leaves the
  application (to the Vite middleware or the framework's default).
\<close>

definition dispatch :: "libs \<Rightarrow> ctx \<Rightarrow> request \<Rightarrow> db \<Rightarrow> reply \<times> db" where
  "dispatch L c req d =
     (case find (\<lambda>(m, p, ms, h). m = req_method req \<and> p = req_path req) app_routes of
        None \<Rightarrow> (Unrouted, d)
      | Some (m, p, ms, h) \<Rightarrow> run_chain L ms h c (req\<lparr>user := None\<rparr>) d)"

text \<open>A sequence of requests, each with its clock and salt, against the store.\<close>

fun run :: "libs \<Rightarrow> db \<Rightarrow> (ctx \<times> request) list \<Rightarrow> reply list \<times> db" where
  "run L d [] = ([], d)"
| "run L d ((c, req) # rest) =
     (let (r, d') = dispatch L c req d; (rs, d'') = run L d' rest in (r # rs, d''))"

text \<open>The request carries a bearer token that verifies to the claims \<open>u\<close>.\<close>

definition authenticates :: "libs \<Rightarrow> request \<Rightarrow> claims \<Rightarrow> bool" where
  "authenticates L req u =
     (truthy (bearer req) \<and> jwt_verify L (the (bearer req)) (JWT_SECRET L) = Some u)"

text \<open>The columns of \<open>users\<close> that identify and authenticate: id, email, hash.\<close>

definition credentials :: "db \<Rightarrow> (int \<times> string \<times> string) list" where
  "credentials d = map (\<lambda>x. (u_id x, u_email x, u_password x)) (users d)"

text \<open>
  The verifier accepts nothing but what the signer produced for the same secret and
  the same claims (what a signature of the token library is for).
\<close>

definition jwt_unforgeable :: "libs \<Rightarrow> bool" where
  "jwt_unforgeable L =
     (\<forall>t s cl. jwt_verify L t s = Some cl \<longrightarrow> (\<exists>tm. t = jwt_sign L cl s tm))"

text \<open>
  What a message is to its reader (role, content, creation time), and the messages
  that a sequence of append requests stored: those of the requests answered with
  success.
\<close>

definition entry :: "history_row \<Rightarrow> string option \<times> string option \<times> nat" where
  "entry h = (Some (h_role h), Some (h_content h), h_created_at h)"

fun appended :: "(ctx \<times> request) list \<Rightarrow> reply list \<Rightarrow> (string option \<times> string option \<times> nat) list" where
  "appended ((c, r) # reqs) (rep # reps) =
     (if rep = Reply 200 JsonSuccess then [(b_role r, b_content r, now c)] else [])
     @ appended reqs reps"
| "appended reqs reps = []"

text \<open>The rows of the three chat and report tables that a user owns.\<close>

definition own :: "int \<Rightarrow> db \<Rightarrow> session_row list \<times> history_row list \<times> report_row list" where
  "own a d =
     (filter (\<lambda>s. s_user_id s = a) (chat_sessions d),
      filter (\<lambda>h. h_user_id h = a) (chat_history d),
      filter (\<lambda>r. r_user_id r = a) (medical_reports d))"

section \<open>A small instance, to run the model on concrete requests\<close>

text \<open>
  Stand-ins for the libraries: tokens for two known payloads, a hash that is the
  password followed by the salt, and, as bcryptjs does, an "Illegal arguments" error
  for a password that is not a string. They only serve to evaluate the handlers.
\<close>

definition alice :: claims where
  "alice = \<lparr>c_id = 1, c_email = ''a@x.com''\<rparr>"

definition bob :: claims where
  "bob = \<lparr>c_id = 2, c_email = ''b@x.com''\<rparr>"

definition test_libs :: libs where
  "test_libs =
     \<lparr>jwt_sign = (\<lambda>cl s t. if cl = alice then ''tokenA'' else if cl = bob then ''tokenB'' else ''token0''),
      jwt_verify = (\<lambda>tok s. if tok = ''tokenA'' then Some alice
                             else if tok = ''tokenB'' then Some bob else None),
      bcrypt_hash = (\<lambda>pw rounds sl.
         case pw of None \<Rightarrow> Inl ''Illegal arguments: undefined, number''
         | Some p \<Rightarrow> Inr (p @ ''$'' @ sl)),
      bcrypt_compare = (\<lambda>pw h.
         case pw of None \<Rightarrow> Inl ''Illegal arguments: undefined, string''
         | Some p \<Rightarrow> Inr (starts_with h (p @ ''$''))),
      env_JWT_SECRET = None,
      foreign_keys = True,
      numeric_text = (\<lambda>q. if q = ''1'' then Some 1 else if q = ''2'' then Some 2 else None)\<rparr>"

definition blank :: request where
  "blank =
     \<lparr>req_method = GET, req_path = [], authorization = None, q_sessionId = None, b_email = None,
      b_password = None, b_firstName = None, b_lastName = None, b_mobile = None,
      b_bloodGroup = None, b_personalNotes = None, b_title = None, b_role = None,
      b_content = None, b_sessionId = None, b_analysis = None, file_originalname = None,
      user = None\<rparr>"

definition at :: "nat \<Rightarrow> ctx" where
  "at t = \<lparr>now = t, salt = ''s''\<rparr>"

definition as_alice :: request where
  "as_alice = blank\<lparr>authorization := Some ''Bearer tokenA''\<rparr>"

definition as_bob :: request where
  "as_bob = blank\<lparr>authorization := Some ''Bearer tokenB''\<rparr>"

text \<open>A store with two users, their sessions, messages and reports.\<close>

definition sample_db :: db where
  "sample_db =
     \<lparr>users =
        [\<lparr>u_id = 1, u_email = ''a@x.com'', u_password = ''pw1$s'', u_first_name = Some ''A'',
          u_last_name = Some ''B'', u_mobile = None, u_blood_group = None,
          u_personal_notes = None, u_created_at = 1\<rparr>,
         \<lparr>u_id = 2, u_email = ''b@x.com'', u_password = ''pw2$s'', u_first_name = Some ''C'',
          u_last_name = None, u_mobile = None, u_blood_group = None,
          u_personal_notes = None, u_created_at = 2\<rparr>],
      chat_sessions =
        [\<lparr>s_id = 1, s_user_id = 1, s_title = ''T1'', s_created_at = 3\<rparr>,
         \<lparr>s_id = 2, s_user_id = 2, s_title = ''B1'', s_created_at = 4\<rparr>,
         \<lparr>s_id = 3, s_user_id = 1, s_title = ''T3'', s_created_at = 9\<rparr>],
      chat_history =
        [\<lparr>h_id = 1, h_user_id = 1, h_session_id = Some 1, h_role = ''user'',
          h_content = ''hi'', h_created_at = 3\<rparr>,
         \<lparr>h_id = 2, h_user_id = 2, h_session_id = Some 2, h_role = ''user'',
          h_content = ''yo'', h_created_at = 4\<rparr>,
         \<lparr>h_id = 3, h_user_id = 1, h_session_id = Some 1, h_role = ''assistant'',
          h_content = ''hello'', h_created_at = 5\<rparr>,
         \<lparr>h_id = 4, h_user_id = 1, h_session_id = None, h_role = ''user'',
          h_content = ''loose'', h_created_at = 4\<rparr>],
      medical_reports =
        [\<lparr>r_id = 1, r_user_id = 1, r_filename = ''report.pdf'', r_analysis = ''ok'',
          r_created_at = 6\<rparr>,
         \<lparr>r_id = 2, r_user_id = 2, r_filename = ''b.pdf'', r_analysis = ''fine'',
          r_created_at = 7\<rparr>,
         \<lparr>r_id = 3, r_user_id = 1, r_filename = ''x.pdf'', r_analysis = ''good'',
          r_created_at = 8\<rparr>],
      seq_users = 2, seq_chat_sessions = 3, seq_chat_history = 4, seq_medical_reports = 3\<rparr>"

text \<open>The scenario of the specification: two registrations, then a login.\<close>

definition reg_alice :: request where
  "reg_alice = blank\<lparr>req_method := POST, req_path := ''/api/auth/register'',
     b_email := Some ''a@x.com'', b_password := Some ''pw1'', b_firstName := Some ''A'',
     b_lastName := Some ''B''\<rparr>"

definition reg_bob :: request where
  "reg_bob = blank\<lparr>req_method := POST, req_path := ''/api/auth/register'',
     b_email := Some ''b@x.com'', b_password := Some ''pw2'', b_firstName := Some ''C''\<rparr>"

definition login_alice :: request where
  "login_alice = blank\<lparr>req_method := POST, req_path := ''/api/auth/login'',
     b_email := Some ''a@x.com'', b_password := Some ''pw1''\<rparr>"

definition db_alice :: db where
  "db_alice = empty_db\<lparr>users :=
       [\<lparr>u_id = 1, u_email = ''a@x.com'', u_password = ''pw1$s'', u_first_name = Some ''A'',
         u_last_name = Some ''B'', u_mobile = None, u_blood_group = None,
         u_personal_notes = None, u_created_at = 1\<rparr>],
     seq_users := 1\<rparr>"

definition db_both :: db where
  "db_both = empty_db\<lparr>users :=
       [\<lparr>u_id = 1, u_email = ''a@x.com'', u_password = ''pw1$s'', u_first_name = Some ''A'',
         u_last_name = Some ''B'', u_mobile = None, u_blood_group = None,
         u_personal_notes = None, u_created_at = 1\<rparr>,
        \<lparr>u_id = 2, u_email = ''b@x.com'', u_password = ''pw2$s'', u_first_name = Some ''C'',
         u_last_name = None, u_mobile = None, u_blood_group = None,
         u_personal_notes = None, u_created_at = 2\<rparr>],
     seq_users := 2\<rparr>"

text \<open>Alice appends to her session 1: a message, one without a role, an answer.\<close>

definition alice_says :: "string option \<Rightarrow> string \<Rightarrow> request" where
  "alice_says role content =
     as_alice\<lparr>b_role := role, b_content := Some content, b_sessionId := Some 1,
       req_method := POST, req_path := ''/api/chat/history''\<rparr>"

definition db_said :: db where
  "db_said = sample_db\<lparr>chat_history := chat_history sample_db @
       [\<lparr>h_id = 5, h_user_id = 1, h_session_id = Some 1, h_role = ''user'',
         h_content = ''more'', h_created_at = 10\<rparr>],
     seq_chat_history := 5\<rparr>"

definition db_answered :: db where
  "db_answered = sample_db\<lparr>chat_history := chat_history sample_db @
       [\<lparr>h_id = 5, h_user_id = 1, h_session_id = Some 1, h_role = ''user'',
         h_content = ''more'', h_created_at = 10\<rparr>,
        \<lparr>h_id = 6, h_user_id = 1, h_session_id = Some 1, h_role = ''assistant'',
         h_content = ''sure'', h_created_at = 12\<rparr>],
     seq_chat_history := 6\<rparr>"

text \<open>Bob writes into session 1, which is Alice's.\<close>

definition bob_says :: request where
  "bob_says = as_bob\<lparr>b_role := Some ''user'', b_content := Some ''mine'', b_sessionId := Some 1,
     req_method := POST, req_path := ''/api/chat/history''\<rparr>"

definition db_bob_said :: db where
  "db_bob_said = sample_db\<lparr>chat_history := chat_history sample_db @
       [\<lparr>h_id = 5, h_user_id = 2, h_session_id = Some 1, h_role = ''user'',
         h_content = ''mine'', h_created_at = 20\<rparr>],
     seq_chat_history := 5\<rparr>"

section \<open>Authentication runs before every protected handler\<close>

lemma chain_of_protected:
  assumes "(m, p, ms, h) \<in> set app_routes"
    and "p \<noteq> ''/api/auth/register''" and "p \<noteq> ''/api/auth/login''"
  shows "ms = [AuthenticateToken] \<or> ms = [AuthenticateToken, UploadSingle ''report'']"
  using assms unfolding app_routes_def by auto

lemma run_chain_protected:
  assumes "ms = [AuthenticateToken] \<or> ms = [AuthenticateToken, UploadSingle field]"
  shows "run_chain L ms h c req d = authenticateToken L req (h L c) d"
proof -
  have nil: "run_chain L [] h c = h L c"
    by (rule ext)+ simp
  have up: "run_chain L [UploadSingle field] h c = h L c"
    by (rule ext)+ simp
  from assms show ?thesis
    by (auto simp: nil up)
qed

lemma dispatch_route:
  assumes "(m, p, ms, h) \<in> set app_routes" and "req_method req = m" and "req_path req = p"
  shows "dispatch L c req d = run_chain L ms h c (req\<lparr>user := None\<rparr>) d"
  using assms unfolding app_routes_def dispatch_def
  by (elim disjE | simp)+

text \<open>
  C1. Every route of the application other than /api/auth/register and
  /api/auth/login has \<open>authenticateToken\<close> at the head of its chain. A request with
  no bearer token (no Authorization header, or none with a non-empty second field) is
  answered 401, one whose token the verifier rejects is answered 403, and in both
  cases the reply and the store are the same whatever the handler is: the handler is
  not run. When the token verifies, the handler runs with \<open>req.user\<close> set to the
  verified claims. \<open>dispatch\<close> sends a request for the route through this chain.
\<close>

theorem protected_routes_verify_first:
  assumes "(m, p, ms, h) \<in> set app_routes"
    and "p \<noteq> ''/api/auth/register''" and "p \<noteq> ''/api/auth/login''"
  shows "(\<not> truthy (bearer req) \<longrightarrow>
            (\<forall>h'. run_chain L ms h' c req d = (Reply 401 SendStatus, d)))
       \<and> (truthy (bearer req) \<and> jwt_verify L (the (bearer req)) (JWT_SECRET L) = None \<longrightarrow>
            (\<forall>h'. run_chain L ms h' c req d = (Reply 403 SendStatus, d)))
       \<and> (\<forall>u. truthy (bearer req) \<and> jwt_verify L (the (bearer req)) (JWT_SECRET L) = Some u \<longrightarrow>
            (\<forall>h'. run_chain L ms h' c req d = h' L c (req\<lparr>user := Some u\<rparr>) d))
       \<and> (req_method req = m \<and> req_path req = p \<longrightarrow>
            dispatch L c req d = run_chain L ms h c (req\<lparr>user := None\<rparr>) d)"
proof -
  have chain: "\<And>h'. run_chain L ms h' c req d = authenticateToken L req (h' L c) d"
    using chain_of_protected [OF assms] by (rule run_chain_protected)
  show ?thesis
    using dispatch_route [OF assms(1)]
    by (simp add: chain authenticateToken_def sendStatus_def)
qed

theorem protected_routes_verify_first_witness:
  "(GET, ''/api/chat/history'', [AuthenticateToken], chat_history_get) \<in> set app_routes
   \<and> \<not> truthy (bearer (blank\<lparr>req_path := ''/api/chat/history''\<rparr>))
   \<and> (\<forall>h'. run_chain test_libs [AuthenticateToken] h' (at 5) (blank\<lparr>req_path := ''/api/chat/history''\<rparr>) empty_db
          = (Reply 401 SendStatus, empty_db))
   \<and> truthy (bearer (blank\<lparr>authorization := Some ''Bearer forged''\<rparr>))
   \<and> jwt_verify test_libs (the (bearer (blank\<lparr>authorization := Some ''Bearer forged''\<rparr>))) (JWT_SECRET test_libs) = None
   \<and> (\<forall>h'. run_chain test_libs [AuthenticateToken] h' (at 5) (blank\<lparr>authorization := Some ''Bearer forged''\<rparr>) empty_db
          = (Reply 403 SendStatus, empty_db))
   \<and> dispatch test_libs (at 5) (blank\<lparr>req_path := ''/api/chat/history''\<rparr>) empty_db = (Reply 401 SendStatus, empty_db)"
proof -
  have r: "(GET, ''/api/chat/history'', [AuthenticateToken], chat_history_get) \<in> set app_routes"
    by (simp add: app_routes_def)
  have a: "\<not> truthy (bearer (blank\<lparr>req_path := ''/api/chat/history''\<rparr>))"
    by (simp add: bearer_def blank_def)
  have b: "truthy (bearer (blank\<lparr>authorization := Some ''Bearer forged''\<rparr>))"
    by (simp add: bearer_def blank_def)
  have v: "jwt_verify test_libs (the (bearer (blank\<lparr>authorization := Some ''Bearer forged''\<rparr>))) (JWT_SECRET test_libs) = None"
    by (simp add: bearer_def blank_def test_libs_def)
  have m: "req_method (blank\<lparr>req_path := ''/api/chat/history''\<rparr>) = GET" "req_path (blank\<lparr>req_path := ''/api/chat/history''\<rparr>) = ''/api/chat/history''"
    by (simp_all add: blank_def)
  have u: "bearer (blank\<lparr>req_path := ''/api/chat/history'', user := None\<rparr>) = bearer (blank\<lparr>req_path := ''/api/chat/history''\<rparr>)"
    by (simp add: bearer_def)
  note t1 = protected_routes_verify_first [OF r, of "blank\<lparr>req_path := ''/api/chat/history''\<rparr>" test_libs "at 5" empty_db]
  note t2 = protected_routes_verify_first [OF r, of "blank\<lparr>authorization := Some ''Bearer forged''\<rparr>" test_libs "at 5" empty_db]
  note t3 = protected_routes_verify_first [OF r, of "blank\<lparr>req_path := ''/api/chat/history'', user := None\<rparr>" test_libs "at 5" empty_db]
  show ?thesis
    using r a b v m u t1 t2 t3 by simp
qed

section \<open>Authenticated requests reach their handler\<close>

lemma authenticates_fields [simp]:
  "authenticates L (req\<lparr>req_method := m\<rparr>) u = authenticates L req u"
  "authenticates L (req\<lparr>req_path := p\<rparr>) u = authenticates L req u"
  "authenticates L (req\<lparr>q_sessionId := q\<rparr>) u = authenticates L req u"
  "authenticates L (req\<lparr>user := x\<rparr>) u = authenticates L req u"
  by (simp_all add: authenticates_def bearer_def)

lemma dispatch_protected:
  assumes "(m, p, ms, h) \<in> set app_routes"
    and "p \<noteq> ''/api/auth/register''" and "p \<noteq> ''/api/auth/login''"
    and "req_method req = m" and "req_path req = p" and "authenticates L req u"
  shows "dispatch L c req d = h L c (req\<lparr>user := Some u\<rparr>) d"
proof -
  have "run_chain L ms h c (req\<lparr>user := None\<rparr>) d
          = authenticateToken L (req\<lparr>user := None\<rparr>) (h L c) d"
    using chain_of_protected [OF assms(1,2,3)] by (rule run_chain_protected)
  moreover have "authenticates L (req\<lparr>user := None\<rparr>) u"
    using assms(6) by simp
  ultimately show ?thesis
    using dispatch_route [OF assms(1,4,5), of L c d]
    by (simp add: authenticateToken_def authenticates_def)
qed

lemma dispatch_sessions_get:
  "authenticates L req u \<Longrightarrow>
   dispatch L c (req\<lparr>req_method := GET, req_path := ''/api/chat/sessions''\<rparr>) d
     = chat_sessions_get L c (req\<lparr>req_method := GET, req_path := ''/api/chat/sessions'', user := Some u\<rparr>) d"
  by (rule dispatch_protected [where m = GET and p = "''/api/chat/sessions''" and ms = "[AuthenticateToken]"])
     (simp_all add: app_routes_def)

lemma dispatch_history_get:
  "authenticates L req u \<Longrightarrow>
   dispatch L c (req\<lparr>req_method := GET, req_path := ''/api/chat/history''\<rparr>) d
     = chat_history_get L c (req\<lparr>req_method := GET, req_path := ''/api/chat/history'', user := Some u\<rparr>) d"
  by (rule dispatch_protected [where m = GET and p = "''/api/chat/history''" and ms = "[AuthenticateToken]"])
     (simp_all add: app_routes_def)

lemma dispatch_reports_get:
  "authenticates L req u \<Longrightarrow>
   dispatch L c (req\<lparr>req_method := GET, req_path := ''/api/reports''\<rparr>) d
     = reports_get L c (req\<lparr>req_method := GET, req_path := ''/api/reports'', user := Some u\<rparr>) d"
  by (rule dispatch_protected [where m = GET and p = "''/api/reports''" and ms = "[AuthenticateToken]"])
     (simp_all add: app_routes_def)

section \<open>Listing for a user without records\<close>

lemma filter_none: "\<forall>x\<in>set xs. \<not> P x \<Longrightarrow> filter P xs = []"
  by (induction xs) auto

text \<open>
  C9. For a user with no chat session, no history entry and no report in the store,
  the authenticated GET /api/chat/sessions, GET /api/chat/history (with any
  \<open>sessionId\<close> or none) and GET /api/reports each reply 200 with the empty list,
  and leave the store as it is.
\<close>

theorem empty_lists_for_new_user:
  assumes "authenticates L req u"
    and "\<forall>s\<in>set (chat_sessions d). s_user_id s \<noteq> c_id u"
    and "\<forall>h\<in>set (chat_history d). h_user_id h \<noteq> c_id u"
    and "\<forall>r\<in>set (medical_reports d). r_user_id r \<noteq> c_id u"
  shows "dispatch L c (req\<lparr>req_method := GET, req_path := ''/api/chat/sessions''\<rparr>) d
           = (Reply 200 (JsonSessions []), d)
       \<and> dispatch L c (req\<lparr>req_method := GET, req_path := ''/api/chat/history''\<rparr>) d
           = (Reply 200 (JsonHistory []), d)
       \<and> dispatch L c (req\<lparr>req_method := GET, req_path := ''/api/reports''\<rparr>) d
           = (Reply 200 (JsonReports []), d)"
proof -
  have s: "filter (\<lambda>s. s_user_id s = c_id u) (chat_sessions d) = []"
    using assms(2) by (rule_tac filter_none) simp
  have h1: "filter (\<lambda>h. h_user_id h = c_id u) (chat_history d) = []"
    using assms(3) by (simp add: filter_none)
  have h2: "\<And>q. filter (\<lambda>h. h_user_id h = c_id u \<and> session_id_eq L (h_session_id h) q) (chat_history d) = []"
    using assms(3) by (simp add: filter_none)
  have r: "filter (\<lambda>r. r_user_id r = c_id u) (medical_reports d) = []"
    using assms(4) by (simp add: filter_none)
  show ?thesis
    by (simp add: dispatch_sessions_get [OF assms(1)] dispatch_history_get [OF assms(1)]
        dispatch_reports_get [OF assms(1)] chat_sessions_get_def chat_history_get_def
        reports_get_def with_user_def order_by_asc_def order_by_desc_def Let_def s h1 h2 r)
qed


lemma alice_authenticates:
  "authenticates test_libs (blank\<lparr>authorization := Some ''Bearer tokenA''\<rparr>) alice"
  by (simp add: authenticates_def bearer_def blank_def test_libs_def)

theorem empty_lists_for_new_user_witness:
  "authenticates test_libs (blank\<lparr>authorization := Some ''Bearer tokenA''\<rparr>) alice
   \<and> chat_sessions empty_db = [] \<and> chat_history empty_db = [] \<and> medical_reports empty_db = []
   \<and> dispatch test_libs (at 5)
         (blank\<lparr>authorization := Some ''Bearer tokenA'', req_method := GET, req_path := ''/api/chat/sessions''\<rparr>)
         empty_db = (Reply 200 (JsonSessions []), empty_db)
   \<and> dispatch test_libs (at 5)
         (blank\<lparr>authorization := Some ''Bearer tokenA'', req_method := GET, req_path := ''/api/chat/history''\<rparr>)
         empty_db = (Reply 200 (JsonHistory []), empty_db)
   \<and> dispatch test_libs (at 5)
         (blank\<lparr>authorization := Some ''Bearer tokenA'', req_method := GET, req_path := ''/api/reports''\<rparr>)
         empty_db = (Reply 200 (JsonReports []), empty_db)"
proof -
  have e: "chat_sessions empty_db = []" "chat_history empty_db = []" "medical_reports empty_db = []"
    by (simp_all add: empty_db_def)
  show ?thesis
    using empty_lists_for_new_user [OF alice_authenticates, of empty_db "at 5"] alice_authenticates
    by (simp add: e)
qed

lemma as_bob_authenticates: "authenticates test_libs as_bob bob"
  by (simp add: authenticates_def bearer_def blank_def test_libs_def as_bob_def)

lemma as_alice_authenticates: "authenticates test_libs as_alice alice"
  by (simp add: authenticates_def bearer_def blank_def test_libs_def as_alice_def)

lemma dispatch_profile_get:
  "authenticates L req u \<Longrightarrow>
   dispatch L c (req\<lparr>req_method := GET, req_path := ''/api/user/profile''\<rparr>) d
     = user_profile_get L c (req\<lparr>req_method := GET, req_path := ''/api/user/profile'', user := Some u\<rparr>) d"
  by (rule dispatch_protected [where m = GET and p = "''/api/user/profile''" and ms = "[AuthenticateToken]"])
     (simp_all add: app_routes_def)

lemma dispatch_profile_put:
  "authenticates L req u \<Longrightarrow>
   dispatch L c (req\<lparr>req_method := PUT, req_path := ''/api/user/profile''\<rparr>) d
     = user_profile_put L c (req\<lparr>req_method := PUT, req_path := ''/api/user/profile'', user := Some u\<rparr>) d"
  by (rule dispatch_protected [where m = PUT and p = "''/api/user/profile''" and ms = "[AuthenticateToken]"])
     (simp_all add: app_routes_def)

lemma dispatch_sessions_post:
  "authenticates L req u \<Longrightarrow>
   dispatch L c (req\<lparr>req_method := POST, req_path := ''/api/chat/sessions''\<rparr>) d
     = chat_sessions_post L c (req\<lparr>req_method := POST, req_path := ''/api/chat/sessions'', user := Some u\<rparr>) d"
  by (rule dispatch_protected [where m = POST and p = "''/api/chat/sessions''" and ms = "[AuthenticateToken]"])
     (simp_all add: app_routes_def)

lemma dispatch_history_post:
  "authenticates L req u \<Longrightarrow>
   dispatch L c (req\<lparr>req_method := POST, req_path := ''/api/chat/history''\<rparr>) d
     = chat_history_post L c (req\<lparr>req_method := POST, req_path := ''/api/chat/history'', user := Some u\<rparr>) d"
  by (rule dispatch_protected [where m = POST and p = "''/api/chat/history''" and ms = "[AuthenticateToken]"])
     (simp_all add: app_routes_def)

lemma dispatch_reports_upload:
  "authenticates L req u \<Longrightarrow>
   dispatch L c (req\<lparr>req_method := POST, req_path := ''/api/reports/upload''\<rparr>) d
     = reports_upload L c (req\<lparr>req_method := POST, req_path := ''/api/reports/upload'', user := Some u\<rparr>) d"
  by (rule dispatch_protected [where m = POST and p = "''/api/reports/upload''"
        and ms = "[AuthenticateToken, UploadSingle ''report'']"])
     (simp_all add: app_routes_def)

section \<open>Ordering of the listings\<close>

lemma order_by_desc_sorted:
  "sorted_wrt (\<lambda>a b. key b \<le> key a) (order_by_desc key rows)"
proof -
  have "sorted (map key (sort_key key (rev rows)))"
    by (rule sorted_sort_key)
  then have "sorted_wrt (\<lambda>a b. key a \<le> key b) (sort_key key (rev rows))"
    by (simp add: sorted_map)
  then show ?thesis
    by (simp add: order_by_desc_def sorted_wrt_rev)
qed

lemma order_by_desc_mset: "mset (order_by_desc key rows) = mset rows"
  by (simp add: order_by_desc_def)

lemma order_by_asc_sorted: "sorted (map key (order_by_asc key rows))"
  by (simp add: order_by_asc_def)

lemma order_by_asc_mset: "mset (order_by_asc key rows) = mset rows"
  by (simp add: order_by_asc_def)

text \<open>
  C6. For an authenticated user, GET /api/chat/sessions replies 200 with exactly the
  user's sessions (as a multiset: the rows of \<open>chat_sessions\<close> whose owner is the
  user) in non-increasing creation time, most recent first, and GET /api/reports does
  the same for the user's report records.
\<close>

theorem sessions_and_reports_most_recent_first:
  assumes "authenticates L req u"
  shows "(\<exists>ss. dispatch L c (req\<lparr>req_method := GET, req_path := ''/api/chat/sessions''\<rparr>) d
                 = (Reply 200 (JsonSessions ss), d)
              \<and> sorted_wrt (\<lambda>a b. s_created_at b \<le> s_created_at a) ss
              \<and> mset ss = mset (filter (\<lambda>s. s_user_id s = c_id u) (chat_sessions d)))
       \<and> (\<exists>rs. dispatch L c (req\<lparr>req_method := GET, req_path := ''/api/reports''\<rparr>) d
                 = (Reply 200 (JsonReports rs), d)
              \<and> sorted_wrt (\<lambda>a b. r_created_at b \<le> r_created_at a) rs
              \<and> mset rs = mset (filter (\<lambda>r. r_user_id r = c_id u) (medical_reports d)))"
  by (simp add: dispatch_sessions_get [OF assms] dispatch_reports_get [OF assms]
      chat_sessions_get_def reports_get_def with_user_def order_by_desc_sorted order_by_desc_mset)

section \<open>The profile\<close>

lemma find_map_preserving:
  "(\<And>x. P (f x) = P x) \<Longrightarrow> find P (map f xs) = map_option f (find P xs)"
  by (induction xs) auto

text \<open>
  C5. For an authenticated user with a row in \<open>users\<close>, PUT /api/user/profile
  replies 200, and a following GET /api/user/profile returns the five fields of the
  update exactly as they came in the request, with the id and email of the row as they
  were. The update leaves the id, email and password hash of every stored user as
  they were.
\<close>

theorem profile_update_roundtrip:
  assumes "authenticates L req u" and "authenticates L req' u"
    and "find (\<lambda>x. u_id x = c_id u) (users d) = Some row"
    and "d' = snd (dispatch L c (req\<lparr>req_method := PUT, req_path := ''/api/user/profile''\<rparr>) d)"
  shows "fst (dispatch L c (req\<lparr>req_method := PUT, req_path := ''/api/user/profile''\<rparr>) d)
           = Reply 200 JsonSuccess
       \<and> dispatch L c' (req'\<lparr>req_method := GET, req_path := ''/api/user/profile''\<rparr>) d'
           = (Reply 200 (JsonProfile (Some
                \<lparr>p_id = u_id row, p_email = u_email row, p_first_name = b_firstName req,
                 p_last_name = b_lastName req, p_mobile = b_mobile req,
                 p_blood_group = b_bloodGroup req, p_personal_notes = b_personalNotes req\<rparr>)), d')
       \<and> map u_id (users d') = map u_id (users d)
       \<and> map u_email (users d') = map u_email (users d)
       \<and> map u_password (users d') = map u_password (users d)"
proof -
  let ?f = "\<lambda>x. x\<lparr>u_first_name := b_firstName req, u_last_name := b_lastName req,
                   u_mobile := b_mobile req, u_blood_group := b_bloodGroup req,
                   u_personal_notes := b_personalNotes req\<rparr>"
  let ?g = "\<lambda>x. if u_id x = c_id u then ?f x else x"
  have put: "dispatch L c (req\<lparr>req_method := PUT, req_path := ''/api/user/profile''\<rparr>) d
               = (Reply 200 JsonSuccess, d\<lparr>users := map ?g (users d)\<rparr>)"
    by (simp add: dispatch_profile_put [OF assms(1)] user_profile_put_def with_user_def)
  have d': "d' = d\<lparr>users := map ?g (users d)\<rparr>"
    using assms(4) by (simp add: put)
  have "find (\<lambda>x. u_id x = c_id u) (map ?g (users d)) = map_option ?g (find (\<lambda>x. u_id x = c_id u) (users d))"
    by (rule find_map_preserving) simp
  then have found: "find (\<lambda>x. u_id x = c_id u) (users d') = Some (?g row)"
    by (simp add: d' assms(3))
  have row: "u_id row = c_id u"
    using assms(3) by (auto simp: find_Some_iff)
  have get: "dispatch L c' (req'\<lparr>req_method := GET, req_path := ''/api/user/profile''\<rparr>) d'
               = (Reply 200 (JsonProfile (Some (profile_of (?g row)))), d')"
    by (simp add: dispatch_profile_get [OF assms(2)] user_profile_get_def with_user_def found)
  have shown: "profile_of (?g row) =
      \<lparr>p_id = u_id row, p_email = u_email row, p_first_name = b_firstName req,
       p_last_name = b_lastName req, p_mobile = b_mobile req,
       p_blood_group = b_bloodGroup req, p_personal_notes = b_personalNotes req\<rparr>"
    using row by (simp add: profile_of_def)
  have cols: "map u_id (users d') = map u_id (users d)"
    "map u_email (users d') = map u_email (users d)"
    "map u_password (users d') = map u_password (users d)"
    by (simp_all add: d' comp_def)
  show ?thesis
    unfolding get shown using put cols by simp
qed

lemma profile_of_password [simp]: "profile_of (x\<lparr>u_password := p\<rparr>) = profile_of x"
  by (simp add: profile_of_def)

text \<open>
  C8. The reply of GET /api/user/profile does not depend on stored password hashes:
  two stores that differ only in the \<open>password\<close> column of \<open>users\<close> give the same
  reply (the reply type \<open>profile\<close> has no field for the hash).
\<close>

theorem profile_ignores_password_hash:
  assumes "authenticates L req u"
  shows "fst (dispatch L c (req\<lparr>req_method := GET, req_path := ''/api/user/profile''\<rparr>)
                (d\<lparr>users := map (\<lambda>x. x\<lparr>u_password := g x\<rparr>) (users d)\<rparr>))
       = fst (dispatch L c (req\<lparr>req_method := GET, req_path := ''/api/user/profile''\<rparr>) d)"
proof -
  have "find (\<lambda>x. u_id x = c_id u) (map (\<lambda>x. x\<lparr>u_password := g x\<rparr>) (users d))
          = map_option (\<lambda>x. x\<lparr>u_password := g x\<rparr>) (find (\<lambda>x. u_id x = c_id u) (users d))"
    by (rule find_map_preserving) simp
  then show ?thesis
    by (simp add: dispatch_profile_get [OF assms] user_profile_get_def with_user_def
        option.map_comp comp_def)
qed


theorem sessions_and_reports_most_recent_first_witness:
  "authenticates test_libs as_alice alice
   \<and> dispatch test_libs (at 10) (as_alice\<lparr>req_method := GET, req_path := ''/api/chat/sessions''\<rparr>) sample_db
       = (Reply 200 (JsonSessions
            [\<lparr>s_id = 3, s_user_id = 1, s_title = ''T3'', s_created_at = 9\<rparr>,
             \<lparr>s_id = 1, s_user_id = 1, s_title = ''T1'', s_created_at = 3\<rparr>]), sample_db)
   \<and> dispatch test_libs (at 10) (as_alice\<lparr>req_method := GET, req_path := ''/api/reports''\<rparr>) sample_db
       = (Reply 200 (JsonReports
            [\<lparr>r_id = 3, r_user_id = 1, r_filename = ''x.pdf'', r_analysis = ''good'', r_created_at = 8\<rparr>,
             \<lparr>r_id = 1, r_user_id = 1, r_filename = ''report.pdf'', r_analysis = ''ok'', r_created_at = 6\<rparr>]),
          sample_db)"
proof -
  have s: "chat_sessions_get test_libs (at 10)
             (as_alice\<lparr>req_method := GET, req_path := ''/api/chat/sessions'', user := Some alice\<rparr>) sample_db
           = (Reply 200 (JsonSessions
            [\<lparr>s_id = 3, s_user_id = 1, s_title = ''T3'', s_created_at = 9\<rparr>,
             \<lparr>s_id = 1, s_user_id = 1, s_title = ''T1'', s_created_at = 3\<rparr>]), sample_db)"
    by (simp add: chat_sessions_get_def with_user_def order_by_desc_def sample_db_def alice_def)
  have r: "reports_get test_libs (at 10)
             (as_alice\<lparr>req_method := GET, req_path := ''/api/reports'', user := Some alice\<rparr>) sample_db
           = (Reply 200 (JsonReports
            [\<lparr>r_id = 3, r_user_id = 1, r_filename = ''x.pdf'', r_analysis = ''good'', r_created_at = 8\<rparr>,
             \<lparr>r_id = 1, r_user_id = 1, r_filename = ''report.pdf'', r_analysis = ''ok'', r_created_at = 6\<rparr>]),
          sample_db)"
    by (simp add: reports_get_def with_user_def order_by_desc_def sample_db_def alice_def)
  show ?thesis
    using sessions_and_reports_most_recent_first [OF as_alice_authenticates, of "at 10" sample_db]
    by (simp add: as_alice_authenticates dispatch_sessions_get [OF as_alice_authenticates]
        dispatch_reports_get [OF as_alice_authenticates] s r)
qed

theorem profile_update_roundtrip_witness:
  "authenticates test_libs as_alice alice
   \<and> find (\<lambda>x. u_id x = c_id alice) (users sample_db) = Some (hd (users sample_db))
   \<and> dispatch test_libs (at 11) (as_alice\<lparr>req_method := GET, req_path := ''/api/user/profile''\<rparr>)
        (snd (dispatch test_libs (at 10)
           (as_alice\<lparr>b_firstName := Some ''Ann'', b_mobile := Some ''555'',
               req_method := PUT, req_path := ''/api/user/profile''\<rparr>) sample_db))
       = (Reply 200 (JsonProfile (Some
            \<lparr>p_id = 1, p_email = ''a@x.com'', p_first_name = Some ''Ann'', p_last_name = None,
             p_mobile = Some ''555'', p_blood_group = None, p_personal_notes = None\<rparr>)),
          snd (dispatch test_libs (at 10)
           (as_alice\<lparr>b_firstName := Some ''Ann'', b_mobile := Some ''555'',
               req_method := PUT, req_path := ''/api/user/profile''\<rparr>) sample_db))
   \<and> map u_password (users (snd (dispatch test_libs (at 10)
           (as_alice\<lparr>b_firstName := Some ''Ann'', b_mobile := Some ''555'',
               req_method := PUT, req_path := ''/api/user/profile''\<rparr>) sample_db)))
       = [''pw1$s'', ''pw2$s'']"
proof -
  have a: "authenticates test_libs (as_alice\<lparr>b_firstName := Some ''Ann'', b_mobile := Some ''555''\<rparr>) alice"
    by (simp add: authenticates_def bearer_def blank_def test_libs_def as_alice_def)
  have f: "find (\<lambda>x. u_id x = c_id alice) (users sample_db) = Some (hd (users sample_db))"
    by (simp add: sample_db_def alice_def)
  have v: "u_id (hd (users sample_db)) = 1" "u_email (hd (users sample_db)) = ''a@x.com''"
    "map u_password (users sample_db) = [''pw1$s'', ''pw2$s'']"
    by (simp_all add: sample_db_def)
  have b: "b_lastName as_alice = None" "b_bloodGroup as_alice = None" "b_personalNotes as_alice = None"
    by (simp_all add: as_alice_def blank_def)
  show ?thesis
    using profile_update_roundtrip [OF a as_alice_authenticates f refl, of "at 10" "at 11"]
    by (simp add: as_alice_authenticates f v b)
qed

theorem profile_ignores_password_hash_witness:
  "authenticates test_libs as_alice alice
   \<and> fst (dispatch test_libs (at 10) (as_alice\<lparr>req_method := GET, req_path := ''/api/user/profile''\<rparr>)
          (sample_db\<lparr>users := map (\<lambda>x. x\<lparr>u_password := ''other''\<rparr>) (users sample_db)\<rparr>))
     = Reply 200 (JsonProfile (Some
            \<lparr>p_id = 1, p_email = ''a@x.com'', p_first_name = Some ''A'', p_last_name = Some ''B'',
             p_mobile = None, p_blood_group = None, p_personal_notes = None\<rparr>))"
proof -
  have g: "user_profile_get test_libs (at 10)
             (as_alice\<lparr>req_method := GET, req_path := ''/api/user/profile'', user := Some alice\<rparr>) sample_db
     = (Reply 200 (JsonProfile (Some
            \<lparr>p_id = 1, p_email = ''a@x.com'', p_first_name = Some ''A'', p_last_name = Some ''B'',
             p_mobile = None, p_blood_group = None, p_personal_notes = None\<rparr>)), sample_db)"
    by (simp add: user_profile_get_def with_user_def sample_db_def alice_def profile_of_def)
  show ?thesis
    using profile_ignores_password_hash [OF as_alice_authenticates, of "at 10" "\<lambda>x. ''other''" sample_db]
    by (simp add: as_alice_authenticates dispatch_profile_get [OF as_alice_authenticates] g)
qed

section \<open>The role of a stored message\<close>

lemma history_post_outcome:
  "chat_history_post L c req d = (r, d') \<Longrightarrow> user req = Some u \<Longrightarrow>
   (r = Reply 200 JsonSuccess \<and> b_role req \<noteq> None \<and> b_content req \<noteq> None
      \<and> chat_history d' = chat_history d @
            [\<lparr>h_id = next_rowid (seq_chat_history d) (map h_id (chat_history d)),
              h_user_id = c_id u, h_session_id = b_sessionId req,
              h_role = the (b_role req), h_content = the (b_content req), h_created_at = now c\<rparr>]
      \<and> users d' = users d \<and> chat_sessions d' = chat_sessions d
      \<and> medical_reports d' = medical_reports d)
   \<or> ((\<exists>m. r = Uncaught m) \<and> d' = d)"
  by (auto simp: chat_history_post_def with_user_def Let_def split: option.splits if_splits)

text \<open>
  C7, as the code has it. The insert of POST /api/chat/history does not look at the
  role: an accepted append adds one row whose role is the \<open>role\<close> string of the
  request body, whatever that string is. The stored role is "user" or "assistant"
  exactly when the caller sent one of the two.
\<close>

theorem history_append_stores_request_role:
  assumes "authenticates L req u"
    and "dispatch L c (req\<lparr>req_method := POST, req_path := ''/api/chat/history''\<rparr>) d
           = (Reply 200 JsonSuccess, d')"
  shows "\<exists>row. chat_history d' = chat_history d @ [row]
           \<and> b_role req = Some (h_role row)
           \<and> (h_role row \<in> {''user'', ''assistant''}
                \<longleftrightarrow> b_role req \<in> {Some ''user'', Some ''assistant''})"
proof -
  let ?r = "req\<lparr>req_method := POST, req_path := ''/api/chat/history'', user := Some u\<rparr>"
  have "chat_history_post L c ?r d = (Reply 200 JsonSuccess, d')"
    using assms(2) by (simp add: dispatch_history_post [OF assms(1)])
  from history_post_outcome [OF this, of u]
  show ?thesis by auto
qed

lemma sample_post_user:
  "chat_history_post test_libs (at 10)
     (as_alice\<lparr>b_role := Some ''user'', b_content := Some ''hi'', b_sessionId := Some 1,
         req_method := POST, req_path := ''/api/chat/history'', user := Some alice\<rparr>) sample_db
   = (Reply 200 JsonSuccess,
      sample_db\<lparr>chat_history := chat_history sample_db @
          [\<lparr>h_id = 5, h_user_id = 1, h_session_id = Some 1, h_role = ''user'',
            h_content = ''hi'', h_created_at = 10\<rparr>],
        seq_chat_history := 5\<rparr>)"
  by (simp add: chat_history_post_def with_user_def Let_def fk_user_def fk_session_def
      next_rowid_def sample_db_def alice_def test_libs_def at_def)

lemma sample_post_system:
  "chat_history_post test_libs (at 10)
     (as_alice\<lparr>b_role := Some ''system'', b_content := Some ''hi'', b_sessionId := Some 1,
         req_method := POST, req_path := ''/api/chat/history'', user := Some alice\<rparr>) sample_db
   = (Reply 200 JsonSuccess,
      sample_db\<lparr>chat_history := chat_history sample_db @
          [\<lparr>h_id = 5, h_user_id = 1, h_session_id = Some 1, h_role = ''system'',
            h_content = ''hi'', h_created_at = 10\<rparr>],
        seq_chat_history := 5\<rparr>)"
  by (simp add: chat_history_post_def with_user_def Let_def fk_user_def fk_session_def
      next_rowid_def sample_db_def alice_def test_libs_def at_def)

lemma as_alice_with_body:
  "authenticates test_libs (as_alice\<lparr>b_role := r, b_content := t, b_sessionId := i\<rparr>) alice"
  by (simp add: authenticates_def bearer_def blank_def test_libs_def as_alice_def)

theorem history_append_stores_request_role_witness:
  "authenticates test_libs as_alice alice
   \<and> dispatch test_libs (at 10)
        (as_alice\<lparr>b_role := Some ''user'', b_content := Some ''hi'', b_sessionId := Some 1,
            req_method := POST, req_path := ''/api/chat/history''\<rparr>) sample_db
       = (Reply 200 JsonSuccess,
          sample_db\<lparr>chat_history := chat_history sample_db @
            [\<lparr>h_id = 5, h_user_id = 1, h_session_id = Some 1, h_role = ''user'',
              h_content = ''hi'', h_created_at = 10\<rparr>],
            seq_chat_history := 5\<rparr>)
   \<and> (\<exists>row. chat_history (sample_db\<lparr>chat_history := chat_history sample_db @
            [\<lparr>h_id = 5, h_user_id = 1, h_session_id = Some 1, h_role = ''user'',
              h_content = ''hi'', h_created_at = 10\<rparr>],
            seq_chat_history := 5\<rparr>)
          = chat_history sample_db @ [row] \<and> h_role row \<in> {''user'', ''assistant''})"
proof -
  have eq: "dispatch test_libs (at 10)
        (as_alice\<lparr>b_role := Some ''user'', b_content := Some ''hi'', b_sessionId := Some 1,
            req_method := POST, req_path := ''/api/chat/history''\<rparr>) sample_db
       = (Reply 200 JsonSuccess,
          sample_db\<lparr>chat_history := chat_history sample_db @
            [\<lparr>h_id = 5, h_user_id = 1, h_session_id = Some 1, h_role = ''user'',
              h_content = ''hi'', h_created_at = 10\<rparr>],
            seq_chat_history := 5\<rparr>)"
    by (simp only: dispatch_history_post [OF as_alice_with_body] sample_post_user)
  show ?thesis
    using history_append_stores_request_role [OF as_alice_with_body eq] as_alice_authenticates eq
    by auto
qed

text \<open>
  C7 as stated fails: an append with role "system" is accepted and stored.
\<close>

theorem stored_role_not_restricted:
  "dispatch test_libs (at 10)
        (as_alice\<lparr>b_role := Some ''system'', b_content := Some ''hi'', b_sessionId := Some 1,
            req_method := POST, req_path := ''/api/chat/history''\<rparr>) sample_db
       = (Reply 200 JsonSuccess,
          sample_db\<lparr>chat_history := chat_history sample_db @
            [\<lparr>h_id = 5, h_user_id = 1, h_session_id = Some 1, h_role = ''system'',
              h_content = ''hi'', h_created_at = 10\<rparr>],
            seq_chat_history := 5\<rparr>)
   \<and> ''system'' \<noteq> ''user'' \<and> ''system'' \<noteq> ''assistant''"
  by (simp only: dispatch_history_post [OF as_alice_with_body] sample_post_system) simp

section \<open>Registration with an email that is taken\<close>

lemma auth_register_user [simp]:
  "auth_register L c (req\<lparr>user := x\<rparr>) d = auth_register L c req d"
  by (simp add: auth_register_def split: sum.splits option.splits)

lemma auth_login_user [simp]:
  "auth_login L c (req\<lparr>user := x\<rparr>) d = auth_login L c req d"
  by (simp add: auth_login_def split: sum.splits option.splits)

lemma dispatch_register:
  assumes "req_method req = POST" and "req_path req = ''/api/auth/register''"
  shows "dispatch L c req d = auth_register L c req d"
proof -
  have "(POST, ''/api/auth/register'', [], auth_register) \<in> set app_routes"
    by (simp add: app_routes_def)
  from dispatch_route [OF this assms] show ?thesis
    by simp
qed

lemma dispatch_login:
  assumes "req_method req = POST" and "req_path req = ''/api/auth/login''"
  shows "dispatch L c req d = auth_login L c req d"
proof -
  have "(POST, ''/api/auth/login'', [], auth_login) \<in> set app_routes"
    by (simp add: app_routes_def)
  from dispatch_route [OF this assms] show ?thesis
    by simp
qed

text \<open>
  C3. With a user of email \<open>e\<close> in the store, a registration request with email \<open>e\<close>
  and a password (one that the hashing step, which comes first, turns into a hash) is
  answered 400 with the duplicate-account error, and the store, so the existing record
  with its email, hash, names and profile fields, is left exactly as it was.
\<close>

theorem duplicate_registration_rejected:
  assumes "e \<in> set (map u_email (users d))" and "b_email req = Some e"
    and "req_method req = POST" and "req_path req = ''/api/auth/register''"
    and "bcrypt_hash L (b_password req) 10 (salt c) = Inr hp"
  shows "dispatch L c req d
           = (Reply 400 (JsonError ''An account with this email already exists. Please sign in instead.''), d)
       \<and> users (snd (dispatch L c req d)) = users d"
  using assms(1,2,5)
  by (simp add: dispatch_register [OF assms(3,4)] auth_register_def)

theorem duplicate_registration_rejected_witness:
  "u_email (hd (users sample_db)) = ''a@x.com''
   \<and> bcrypt_hash test_libs (Some ''pw9'') 10 (salt (at 10)) = Inr ''pw9$s''
   \<and> dispatch test_libs (at 10)
        (blank\<lparr>b_email := Some ''a@x.com'', b_password := Some ''pw9'',
            req_method := POST, req_path := ''/api/auth/register''\<rparr>) sample_db
     = (Reply 400 (JsonError ''An account with this email already exists. Please sign in instead.''),
        sample_db)"
proof -
  let ?req = "blank\<lparr>b_email := Some ''a@x.com'', b_password := Some ''pw9'',
            req_method := POST, req_path := ''/api/auth/register''\<rparr>"
  have m: "''a@x.com'' \<in> set (map u_email (users sample_db))"
    by (simp add: sample_db_def)
  have h: "bcrypt_hash test_libs (b_password ?req) 10 (salt (at 10)) = Inr ''pw9$s''"
    by (simp add: test_libs_def at_def)
  have r: "b_email ?req = Some ''a@x.com''" "req_method ?req = POST"
    "req_path ?req = ''/api/auth/register''"
    by simp_all
  from duplicate_registration_rejected [OF m r h] h
  show ?thesis
    by (simp add: sample_db_def)
qed

section \<open>What a request can change\<close>

text \<open>
  Every request either leaves the store as it is, or is a registration, or is one of
  the four writing routes run for the claims that its token verifies to.
\<close>

lemma find_Some_mem: "find P xs = Some x \<Longrightarrow> x \<in> set xs \<and> P x"
  by (induction xs) (auto split: if_splits)

lemma dispatch_shape:
  "dispatch L c req d = (Unrouted, d)
   \<or> (\<exists>m p ms h. (m, p, ms, h) \<in> set app_routes
          \<and> dispatch L c req d = run_chain L ms h c (req\<lparr>user := None\<rparr>) d)"
proof (cases "find (\<lambda>(m, p, ms, h). m = req_method req \<and> p = req_path req) app_routes")
  case None
  then show ?thesis by (simp add: dispatch_def)
next
  case (Some r)
  obtain m p ms h where r: "r = (m, p, ms, h)"
    by (cases r) auto
  from Some have "r \<in> set app_routes"
    by (auto dest: find_Some_mem)
  with Some r show ?thesis
    by (auto simp: dispatch_def)
qed

lemma authenticateToken_outcome:
  "authenticateToken L req k d = (Reply 401 SendStatus, d)
   \<or> authenticateToken L req k d = (Reply 403 SendStatus, d)
   \<or> (\<exists>u. authenticates L req u \<and> authenticateToken L req k d = k (req\<lparr>user := Some u\<rparr>) d)"
  by (auto simp: authenticateToken_def authenticates_def sendStatus_def Let_def split: option.splits)

lemma protected_shape:
  assumes "ms = [AuthenticateToken] \<or> ms = [AuthenticateToken, UploadSingle field]"
  shows "snd (run_chain L ms h c (req\<lparr>user := None\<rparr>) d) = d
       \<or> (\<exists>u. authenticates L req u
              \<and> run_chain L ms h c (req\<lparr>user := None\<rparr>) d = h L c (req\<lparr>user := Some u\<rparr>) d)"
  using authenticateToken_outcome [of L "req\<lparr>user := None\<rparr>" "h L c" d]
  by (auto simp: run_chain_protected [OF assms])

lemma read_only [simp]:
  "snd (auth_login L c req d) = d"
  "snd (user_profile_get L c req d) = d"
  "snd (chat_sessions_get L c req d) = d"
  "snd (chat_history_get L c req d) = d"
  "snd (reports_get L c req d) = d"
  by (simp_all add: auth_login_def user_profile_get_def chat_sessions_get_def
      chat_history_get_def reports_get_def with_user_def Let_def
      split: option.splits sum.splits)

lemma dispatch_cases [case_names unchanged register profile_put sessions_post history_post upload]:
  obtains "snd (dispatch L c req d) = d"
  | "dispatch L c req d = auth_register L c req d"
  | u where "authenticates L req u"
      "dispatch L c req d = user_profile_put L c (req\<lparr>user := Some u\<rparr>) d"
  | u where "authenticates L req u"
      "dispatch L c req d = chat_sessions_post L c (req\<lparr>user := Some u\<rparr>) d"
  | u where "authenticates L req u"
      "dispatch L c req d = chat_history_post L c (req\<lparr>user := Some u\<rparr>) d"
  | u where "authenticates L req u"
      "dispatch L c req d = reports_upload L c (req\<lparr>user := Some u\<rparr>) d"
proof -
  from dispatch_shape [of L c req d]
  consider "dispatch L c req d = (Unrouted, d)"
    | m p ms h where "(m, p, ms, h) \<in> set app_routes"
        "dispatch L c req d = run_chain L ms h c (req\<lparr>user := None\<rparr>) d"
    by blast
  then show thesis
  proof cases
    case 1
    then show thesis using that(1) by simp
  next
    case (2 m p ms h)
    show thesis
    proof (cases "p = ''/api/auth/register'' \<or> p = ''/api/auth/login''")
      case True
      with 2(1) have "(ms = [] \<and> h = auth_register) \<or> (ms = [] \<and> h = auth_login)"
        unfolding app_routes_def by auto
      then show thesis
        using 2(2) that(1,2) by auto
    next
      case False
      then have ms: "ms = [AuthenticateToken] \<or> ms = [AuthenticateToken, UploadSingle ''report'']"
        using chain_of_protected [OF 2(1)] by simp
      from 2(1) have h: "h \<in> {user_profile_get, user_profile_put, chat_sessions_get,
          chat_sessions_post, chat_history_get, chat_history_post, reports_upload, reports_get}"
        using False unfolding app_routes_def by auto
      from protected_shape [OF ms, of L h c req d]
      show thesis
      proof
        assume "snd (run_chain L ms h c (req\<lparr>user := None\<rparr>) d) = d"
        then show thesis using 2(2) that(1) by simp
      next
        assume "\<exists>u. authenticates L req u
              \<and> run_chain L ms h c (req\<lparr>user := None\<rparr>) d = h L c (req\<lparr>user := Some u\<rparr>) d"
        then obtain u where u: "authenticates L req u"
          "dispatch L c req d = h L c (req\<lparr>user := Some u\<rparr>) d"
          using 2(2) by auto
        from h consider "h = user_profile_get" | "h = user_profile_put" | "h = chat_sessions_get"
          | "h = chat_sessions_post" | "h = chat_history_get" | "h = chat_history_post"
          | "h = reports_upload" | "h = reports_get"
          by auto
        then show thesis
          using u that by cases simp_all
      qed
    qed
  qed
qed

section \<open>Registration, login and the token\<close>

text \<open>No request changes the id, email or hash of a stored user; registration appends.\<close>

lemma register_credentials:
  "\<exists>extra. credentials (snd (auth_register L c req d)) = credentials d @ extra"
  by (auto simp: auth_register_def credentials_def Let_def split: sum.splits option.splits)

lemma profile_put_credentials:
  "credentials (snd (user_profile_put L c req d)) = credentials d"
  by (auto simp: user_profile_put_def with_user_def credentials_def split: option.splits)

lemma sessions_post_users:
  "users (snd (chat_sessions_post L c req d)) = users d"
  by (auto simp: chat_sessions_post_def with_user_def Let_def split: option.splits)

lemma history_post_users:
  "users (snd (chat_history_post L c req d)) = users d"
  by (auto simp: chat_history_post_def with_user_def Let_def split: option.splits)

lemma upload_users:
  "users (snd (reports_upload L c req d)) = users d"
  by (auto simp: reports_upload_def with_user_def Let_def split: option.splits)

lemma dispatch_credentials:
  "\<exists>extra. credentials (snd (dispatch L c req d)) = credentials d @ extra"
proof (cases L c req d rule: dispatch_cases)
  case unchanged
  then show ?thesis by simp
next
  case register
  then show ?thesis using register_credentials [of L c req d] by simp
next
  case (profile_put u)
  then show ?thesis by (simp add: profile_put_credentials)
next
  case (sessions_post u)
  then show ?thesis by (simp add: credentials_def sessions_post_users)
next
  case (history_post u)
  then show ?thesis by (simp add: credentials_def history_post_users)
next
  case (upload u)
  then show ?thesis by (simp add: credentials_def upload_users)
qed

lemma run_credentials:
  "run L d reqs = (rs, d') \<Longrightarrow> \<exists>extra. credentials d' = credentials d @ extra"
proof (induction reqs arbitrary: d rs d')
  case Nil
  then show ?case by simp
next
  case (Cons a reqs)
  obtain c req where a: "a = (c, req)" by (cases a)
  obtain r d1 where s: "dispatch L c req d = (r, d1)" by (cases "dispatch L c req d")
  obtain rs1 d2 where t: "run L d1 reqs = (rs1, d2)" by (cases "run L d1 reqs")
  from Cons.prems a s t have "d' = d2" by simp
  moreover from Cons.IH [OF t] obtain e2 where "credentials d2 = credentials d1 @ e2" by blast
  moreover from dispatch_credentials [of L c req d] s obtain e1 where
    "credentials d1 = credentials d @ e1" by auto
  ultimately show ?case by simp
qed

lemma find_append:
  "find P (xs @ ys) = (case find P xs of None \<Rightarrow> find P ys | Some x \<Rightarrow> Some x)"
  by (induction xs) auto

lemma user_by_email_credentials:
  "map_option (\<lambda>x. (u_id x, u_email x, u_password x)) (user_by_email d (Some e))
     = find (\<lambda>t. fst (snd t) = e) (credentials d)"
proof -
  have "\<And>xs. map_option (\<lambda>x. (u_id x, u_email x, u_password x)) (find (\<lambda>x. u_email x = e) xs)
          = find (\<lambda>t. fst (snd t) = e) (map (\<lambda>x. (u_id x, u_email x, u_password x)) xs)"
    subgoal for xs by (induction xs) auto
    done
  then show ?thesis
    by (simp add: user_by_email_def credentials_def)
qed

lemma user_by_email_later:
  assumes "user_by_email d (Some e) = Some x" and "credentials d' = credentials d @ extra"
  shows "\<exists>x'. user_by_email d' (Some e) = Some x' \<and> u_id x' = u_id x
            \<and> u_email x' = u_email x \<and> u_password x' = u_password x"
proof -
  have "find (\<lambda>t. fst (snd t) = e) (credentials d) = Some (u_id x, u_email x, u_password x)"
    using user_by_email_credentials [of d e] assms(1) by simp
  then have "find (\<lambda>t. fst (snd t) = e) (credentials d') = Some (u_id x, u_email x, u_password x)"
    by (simp add: assms(2) find_append)
  then show ?thesis
    using user_by_email_credentials [of d' e] by auto
qed

lemma register_created:
  assumes "auth_register L c req d = (Reply 201 (JsonId i), d1)"
  shows "\<exists>e hp x. b_email req = Some e \<and> bcrypt_hash L (b_password req) 10 (salt c) = Inr hp
           \<and> user_by_email d1 (Some e) = Some x \<and> u_id x = i \<and> u_email x = e
           \<and> u_password x = hp \<and> e \<notin> set (map u_email (users d))"
proof -
  have none: "\<And>e xs. e \<notin> u_email ` set xs \<Longrightarrow> find (\<lambda>x. u_email x = e) xs = None"
    by (auto simp: find_None_iff)
  from assms show ?thesis
    by (auto simp: auth_register_def Let_def user_by_email_def find_append none
        split: sum.splits option.splits if_splits)
qed


lemma js_split_no_sep: "sep \<notin> set s \<Longrightarrow> js_split sep s = [s]"
  by (induction s) auto

lemma bearer_header:
  "CHR '' '' \<notin> set tok \<Longrightarrow> bearer (req\<lparr>authorization := Some (''Bearer '' @ tok)\<rparr>) = Some tok"
  by (simp add: bearer_def js_split_no_sep)

lemma accepted_token:
  assumes "tok \<noteq> []" and "CHR '' '' \<notin> set tok" and "jwt_verify L tok (JWT_SECRET L) = Some u"
  shows "authenticateToken L (req\<lparr>authorization := Some (''Bearer '' @ tok)\<rparr>) next d
           = next (req\<lparr>authorization := Some (''Bearer '' @ tok), user := Some u\<rparr>) d"
  unfolding authenticateToken_def bearer_header [OF assms(2)]
  using assms(1,3) by simp

lemma login_succeeds:
  assumes "user_by_email d (b_email req) = Some x"
    and "bcrypt_compare L (b_password req) (u_password x) = Inr True"
  shows "auth_login L c req d =
           (Reply 200 (JsonLogin (jwt_sign L \<lparr>c_id = u_id x, c_email = u_email x\<rparr> (JWT_SECRET L) (now c))
              \<lparr>lu_id = u_id x, lu_email = u_email x, lu_firstName = u_first_name x,
               lu_lastName = u_last_name x\<rparr>), d)"
  using assms by (simp add: auth_login_def)

lemma rejected_token:
  assumes "jwt_unforgeable L" and "bearer req = Some t"
    and "\<forall>cl tm. t \<noteq> jwt_sign L cl (JWT_SECRET L) tm"
  shows "authenticateToken L req next d = (Reply (if t = [] then 401 else 403) SendStatus, d)"
proof -
  have "jwt_verify L t (JWT_SECRET L) = None"
  proof (cases "jwt_verify L t (JWT_SECRET L)")
    case None
    then show ?thesis .
  next
    case (Some cl)
    with assms(1) obtain tm where "t = jwt_sign L cl (JWT_SECRET L) tm"
      unfolding jwt_unforgeable_def by blast
    with assms(3) show ?thesis by blast
  qed
  then show ?thesis
    using assms(2) by (simp add: authenticateToken_def sendStatus_def)
qed

text \<open>
  C2. Let a registration succeed (201, id \<open>i\<close>), and let any requests follow it. A
  login with the same email and password then replies 200 with a token and the user's
  id and email, provided the password library accepts a password against its own hash.
  Provided the token library verifies what it signed, that token verifies to the
  claims \<open>(i, email)\<close>, and a request carrying it as "Bearer token" passes the
  middleware with \<open>req.user\<close> set to these claims. A token that is not a signature
  under the server secret is rejected by the middleware (403, or 401 when it is
  empty) without running the handler, provided the library is unforgeable.
\<close>

theorem login_after_registration:
  assumes "req_method reg = POST" and "req_path reg = ''/api/auth/register''"
    and "dispatch L c reg d = (Reply 201 (JsonId i), d1)"
    and "run L d1 between = (rs, d2)"
    and "req_method login = POST" and "req_path login = ''/api/auth/login''"
    and "b_email login = b_email reg" and "b_password login = b_password reg"
    and "\<And>hp. bcrypt_hash L (b_password reg) 10 (salt c) = Inr hp
           \<Longrightarrow> bcrypt_compare L (b_password reg) hp = Inr True"
    and "\<And>e. b_email reg = Some e
           \<Longrightarrow> jwt_verify L (jwt_sign L \<lparr>c_id = i, c_email = e\<rparr> (JWT_SECRET L) (now c')) (JWT_SECRET L)
               = Some \<lparr>c_id = i, c_email = e\<rparr>"
  shows "\<exists>e tok lu. b_email reg = Some e
       \<and> dispatch L c' login d2 = (Reply 200 (JsonLogin tok lu), d2)
       \<and> lu_id lu = i \<and> lu_email lu = e
       \<and> jwt_verify L tok (JWT_SECRET L) = Some \<lparr>c_id = i, c_email = e\<rparr>
       \<and> (tok \<noteq> [] \<and> CHR '' '' \<notin> set tok \<longrightarrow>
            (\<forall>req next d0.
               authenticateToken L (req\<lparr>authorization := Some (''Bearer '' @ tok)\<rparr>) next d0
                 = next (req\<lparr>authorization := Some (''Bearer '' @ tok),
                            user := Some \<lparr>c_id = i, c_email = e\<rparr>\<rparr>) d0))
       \<and> (jwt_unforgeable L \<longrightarrow>
            (\<forall>t req next d0.
               bearer req = Some t \<and> (\<forall>cl tm. t \<noteq> jwt_sign L cl (JWT_SECRET L) tm) \<longrightarrow>
               authenticateToken L req next d0
                 = (Reply (if t = [] then 401 else 403) SendStatus, d0)))"
proof -
  have "auth_register L c reg d = (Reply 201 (JsonId i), d1)"
    using assms(3) by (simp add: dispatch_register [OF assms(1,2)])
  from register_created [OF this] obtain e hp x where
    e: "b_email reg = Some e" and hp: "bcrypt_hash L (b_password reg) 10 (salt c) = Inr hp"
    and x: "user_by_email d1 (Some e) = Some x" "u_id x = i" "u_email x = e" "u_password x = hp"
    by blast
  from run_credentials [OF assms(4)] obtain extra where
    "credentials d2 = credentials d1 @ extra" by blast
  from user_by_email_later [OF x(1) this] obtain x' where
    x': "user_by_email d2 (Some e) = Some x'" "u_id x' = i" "u_email x' = e" "u_password x' = hp"
    using x by auto
  let ?tok = "jwt_sign L \<lparr>c_id = i, c_email = e\<rparr> (JWT_SECRET L) (now c')"
  let ?lu = "\<lparr>lu_id = i, lu_email = e, lu_firstName = u_first_name x', lu_lastName = u_last_name x'\<rparr>"
  have found: "user_by_email d2 (b_email login) = Some x'"
    using x'(1) e assms(7) by simp
  have cmp: "bcrypt_compare L (b_password login) (u_password x') = Inr True"
    using assms(9) [OF hp] x'(4) assms(8) by simp
  have login: "dispatch L c' login d2 = (Reply 200 (JsonLogin ?tok ?lu), d2)"
    using login_succeeds [OF found cmp, of c'] x'
    by (simp add: dispatch_login [OF assms(5,6)])
  have ver: "jwt_verify L ?tok (JWT_SECRET L) = Some \<lparr>c_id = i, c_email = e\<rparr>"
    by (rule assms(10) [OF e])
  have pass: "?tok \<noteq> [] \<and> CHR '' '' \<notin> set ?tok \<longrightarrow>
            (\<forall>req next d0.
               authenticateToken L (req\<lparr>authorization := Some (''Bearer '' @ ?tok)\<rparr>) next d0
                 = next (req\<lparr>authorization := Some (''Bearer '' @ ?tok),
                            user := Some \<lparr>c_id = i, c_email = e\<rparr>\<rparr>) d0)"
    using accepted_token [OF _ _ ver] by blast
  have forged: "jwt_unforgeable L \<longrightarrow>
            (\<forall>t req next d0.
               bearer req = Some t \<and> (\<forall>cl tm. t \<noteq> jwt_sign L cl (JWT_SECRET L) tm) \<longrightarrow>
               authenticateToken L req next d0
                 = (Reply (if t = [] then 401 else 403) SendStatus, d0))"
    using rejected_token by blast
  show ?thesis
    using e login ver pass forged by (intro exI [of _ e] exI [of _ ?tok] exI [of _ ?lu]) simp
qed


lemma test_libs_unforgeable: "jwt_unforgeable test_libs"
  by (auto simp: jwt_unforgeable_def test_libs_def alice_def bob_def split: if_splits)

lemma sample_reg_alice:
  "dispatch test_libs (at 1) reg_alice empty_db = (Reply 201 (JsonId 1), db_alice)"
proof -
  have "req_method reg_alice = POST" "req_path reg_alice = ''/api/auth/register''"
    by (simp_all add: reg_alice_def)
  from dispatch_register [OF this] show ?thesis
    by (simp add: auth_register_def reg_alice_def blank_def test_libs_def at_def empty_db_def
        db_alice_def next_rowid_def)
qed

lemma sample_reg_bob:
  "dispatch test_libs (at 2) reg_bob db_alice = (Reply 201 (JsonId 2), db_both)"
proof -
  have "req_method reg_bob = POST" "req_path reg_bob = ''/api/auth/register''"
    by (simp_all add: reg_bob_def)
  from dispatch_register [OF this] show ?thesis
    by (simp add: auth_register_def reg_bob_def blank_def test_libs_def at_def empty_db_def
        db_alice_def db_both_def next_rowid_def)
qed

lemma sample_login_alice:
  "dispatch test_libs (at 3) login_alice db_both
     = (Reply 200 (JsonLogin ''tokenA''
          \<lparr>lu_id = 1, lu_email = ''a@x.com'', lu_firstName = Some ''A'', lu_lastName = Some ''B''\<rparr>),
        db_both)"
proof -
  have "req_method login_alice = POST" "req_path login_alice = ''/api/auth/login''"
    by (simp_all add: login_alice_def)
  from dispatch_login [OF this] show ?thesis
    by (simp add: auth_login_def user_by_email_def login_alice_def blank_def test_libs_def
        alice_def at_def empty_db_def db_both_def)
qed

theorem login_after_registration_witness:
  "dispatch test_libs (at 1) reg_alice empty_db = (Reply 201 (JsonId 1), db_alice)
   \<and> run test_libs db_alice [(at 2, reg_bob)] = ([Reply 201 (JsonId 2)], db_both)
   \<and> dispatch test_libs (at 3) login_alice db_both
     = (Reply 200 (JsonLogin ''tokenA''
          \<lparr>lu_id = 1, lu_email = ''a@x.com'', lu_firstName = Some ''A'', lu_lastName = Some ''B''\<rparr>),
        db_both)
   \<and> jwt_verify test_libs ''tokenA'' (JWT_SECRET test_libs) = Some \<lparr>c_id = 1, c_email = ''a@x.com''\<rparr>
   \<and> jwt_unforgeable test_libs
   \<and> (\<forall>next d0. authenticateToken test_libs (blank\<lparr>authorization := Some ''Bearer tokenX''\<rparr>) next d0
         = (Reply 403 SendStatus, d0))"
proof -
  have r: "run test_libs db_alice [(at 2, reg_bob)] = ([Reply 201 (JsonId 2)], db_both)"
    by (simp add: sample_reg_bob)
  have m: "req_method reg_alice = POST" "req_path reg_alice = ''/api/auth/register''"
    "req_method login_alice = POST" "req_path login_alice = ''/api/auth/login''"
    "b_email login_alice = b_email reg_alice" "b_password login_alice = b_password reg_alice"
    by (simp_all add: reg_alice_def login_alice_def blank_def)
  have b: "\<And>hp. bcrypt_hash test_libs (b_password reg_alice) 10 (salt (at 1)) = Inr hp
           \<Longrightarrow> bcrypt_compare test_libs (b_password reg_alice) hp = Inr True"
    by (auto simp: test_libs_def reg_alice_def blank_def at_def)
  have j: "\<And>e. b_email reg_alice = Some e
           \<Longrightarrow> jwt_verify test_libs (jwt_sign test_libs \<lparr>c_id = 1, c_email = e\<rparr> (JWT_SECRET test_libs) (now (at 3)))
                 (JWT_SECRET test_libs)
               = Some \<lparr>c_id = 1, c_email = e\<rparr>"
    by (auto simp: test_libs_def reg_alice_def blank_def alice_def)
  have v: "jwt_verify test_libs ''tokenA'' (JWT_SECRET test_libs) = Some \<lparr>c_id = 1, c_email = ''a@x.com''\<rparr>"
    by (simp add: test_libs_def alice_def)
  have f: "\<forall>next d0. authenticateToken test_libs (blank\<lparr>authorization := Some ''Bearer tokenX''\<rparr>) next d0
         = (Reply 403 SendStatus, d0)"
    by (simp add: authenticateToken_def bearer_def sendStatus_def test_libs_def)
  note t = login_after_registration [OF m(1,2) sample_reg_alice r m(3,4,5,6) b j]
  show ?thesis
    using t sample_reg_alice r sample_login_alice v test_libs_unforgeable f
    by simp
qed

section \<open>The history of a session\<close>

lemma history_post_step:
  assumes "authenticates L r u" and "req_method r = POST" and "req_path r = ''/api/chat/history''"
    and "dispatch L c r d = (rep, d1)"
  shows "(rep = Reply 200 JsonSuccess
          \<and> (\<exists>row. chat_history d1 = chat_history d @ [row] \<and> h_user_id row = c_id u
                 \<and> h_session_id row = b_sessionId r \<and> entry row = (b_role r, b_content r, now c)))
       \<or> (rep \<noteq> Reply 200 JsonSuccess \<and> chat_history d1 = chat_history d)"
proof -
  have "(POST, ''/api/chat/history'', [AuthenticateToken], chat_history_post) \<in> set app_routes"
    by (simp add: app_routes_def)
  from dispatch_protected [OF this _ _ assms(2,3,1), of c d] assms(4)
  have "chat_history_post L c (r\<lparr>user := Some u\<rparr>) d = (rep, d1)"
    by simp
  from history_post_outcome [OF this, of u] show ?thesis
    by (auto simp: entry_def)
qed

lemma run_history_appends:
  assumes "\<forall>(c, r) \<in> set reqs. authenticates L r u \<and> req_method r = POST
             \<and> req_path r = ''/api/chat/history'' \<and> b_sessionId r = Some sid"
    and "run L d reqs = (replies, d')"
  shows "length replies = length reqs
       \<and> (\<exists>new. chat_history d' = chat_history d @ new
              \<and> (\<forall>h\<in>set new. h_user_id h = c_id u \<and> h_session_id h = Some sid)
              \<and> map entry new = appended reqs replies)"
  using assms
proof (induction reqs arbitrary: d replies d')
  case Nil
  then show ?case by simp
next
  case (Cons a reqs)
  obtain c r where a: "a = (c, r)" by (cases a)
  obtain rep d1 where s: "dispatch L c r d = (rep, d1)" by (cases "dispatch L c r d")
  obtain reps d2 where t: "run L d1 reqs = (reps, d2)" by (cases "run L d1 reqs")
  from Cons.prems(2) a s t have res: "replies = rep # reps" "d' = d2" by simp_all
  from Cons.prems(1) a have r: "authenticates L r u" "req_method r = POST"
    "req_path r = ''/api/chat/history''" "b_sessionId r = Some sid"
    by auto
  from Cons.prems(1) have rest: "\<forall>(c, r) \<in> set reqs. authenticates L r u \<and> req_method r = POST
             \<and> req_path r = ''/api/chat/history'' \<and> b_sessionId r = Some sid"
    by simp
  from Cons.IH [OF rest t] obtain new where new: "length reps = length reqs"
    "chat_history d2 = chat_history d1 @ new"
    "\<forall>h\<in>set new. h_user_id h = c_id u \<and> h_session_id h = Some sid"
    "map entry new = appended reqs reps"
    by blast
  from history_post_step [OF r(1,2,3) s] show ?case
  proof
    assume "rep = Reply 200 JsonSuccess
          \<and> (\<exists>row. chat_history d1 = chat_history d @ [row] \<and> h_user_id row = c_id u
                 \<and> h_session_id row = b_sessionId r \<and> entry row = (b_role r, b_content r, now c))"
    then obtain row where row: "rep = Reply 200 JsonSuccess"
      "chat_history d1 = chat_history d @ [row]" "h_user_id row = c_id u"
      "h_session_id row = b_sessionId r" "entry row = (b_role r, b_content r, now c)"
      by blast
    have "chat_history d' = chat_history d @ (row # new)"
      using new(2) row(2) res(2) by simp
    moreover have "\<forall>h\<in>set (row # new). h_user_id h = c_id u \<and> h_session_id h = Some sid"
      using new(3) row(3,4) r(4) by simp
    moreover have "map entry (row # new) = appended (a # reqs) replies"
      using new(4) row(1,5) a res(1) by simp
    ultimately show ?thesis
      using new(1) res(1) by (intro conjI exI [of _ "row # new"]) simp_all
  next
    assume "rep \<noteq> Reply 200 JsonSuccess \<and> chat_history d1 = chat_history d"
    then have "chat_history d' = chat_history d @ new"
      and "map entry new = appended (a # reqs) replies"
      using new(2,4) res a by simp_all
    then show ?thesis
      using new(1,3) res(1) by (intro conjI exI [of _ new]) simp_all
  qed
qed

lemma length_appended:
  "length reps = length reqs \<Longrightarrow>
   length (appended reqs reps) = length (filter (\<lambda>rep. rep = Reply 200 JsonSuccess) reps)"
proof (induction reqs reps rule: appended.induct)
  case (1 c r reqs rep reps)
  then show ?case by simp
qed simp_all

lemma session_id_eq_numeric:
  "numeric_text L q = Some sid \<Longrightarrow> session_id_eq L s q = (s = Some sid)"
  by (auto simp: session_id_eq_def split: option.splits)

text \<open>
  C4. Let a user send any sequence of POST /api/chat/history requests under one
  session, from any store. GET /api/chat/history with a \<open>sessionId\<close> that denotes
  that session then replies 200 with exactly the user's rows of that session, in
  non-decreasing creation time: the messages that were there before together with one
  message (role, content, creation time) for each request answered with success, so
  their number grows by the number of successful appends. With \<open>sessionId\<close> omitted
  the reply holds all rows of the user, of every session and of none, in one
  non-decreasing creation-time order.
\<close>

theorem history_listing_after_appends:
  assumes "\<forall>(c, r) \<in> set reqs. authenticates L r u \<and> req_method r = POST
             \<and> req_path r = ''/api/chat/history'' \<and> b_sessionId r = Some sid"
    and "run L d reqs = (replies, d')"
    and "authenticates L req u"
    and "q \<noteq> []" and "numeric_text L q = Some sid"
  shows "(\<exists>hs. dispatch L c (req\<lparr>q_sessionId := Some q, req_method := GET,
                                 req_path := ''/api/chat/history''\<rparr>) d'
                 = (Reply 200 (JsonHistory hs), d')
             \<and> sorted (map h_created_at hs)
             \<and> mset hs = mset (filter (\<lambda>h. h_user_id h = c_id u \<and> h_session_id h = Some sid)
                                  (chat_history d'))
             \<and> mset (map entry hs)
                 = mset (map entry (filter (\<lambda>h. h_user_id h = c_id u \<and> h_session_id h = Some sid)
                                      (chat_history d)))
                   + mset (appended reqs replies)
             \<and> length hs
                 = length (filter (\<lambda>h. h_user_id h = c_id u \<and> h_session_id h = Some sid)
                             (chat_history d))
                   + length (filter (\<lambda>rep. rep = Reply 200 JsonSuccess) replies))
       \<and> (\<exists>hs. dispatch L c (req\<lparr>q_sessionId := None, req_method := GET,
                                 req_path := ''/api/chat/history''\<rparr>) d'
                 = (Reply 200 (JsonHistory hs), d')
             \<and> sorted (map h_created_at hs)
             \<and> mset hs = mset (filter (\<lambda>h. h_user_id h = c_id u) (chat_history d')))"
proof -
  let ?P = "\<lambda>h. h_user_id h = c_id u \<and> h_session_id h = Some sid"
  from run_history_appends [OF assms(1,2)] obtain new where new:
    "length replies = length reqs" "chat_history d' = chat_history d @ new"
    "\<forall>h\<in>set new. ?P h" "map entry new = appended reqs replies"
    by blast
  have f: "filter ?P (chat_history d') = filter ?P (chat_history d) @ new"
    using new(2,3) by simp
  let ?hs = "order_by_asc h_created_at (filter ?P (chat_history d'))"
  have a1: "authenticates L (req\<lparr>q_sessionId := Some q\<rparr>) u"
    and a2: "authenticates L (req\<lparr>q_sessionId := None\<rparr>) u"
    using assms(3) by simp_all
  have g: "dispatch L c (req\<lparr>q_sessionId := Some q, req_method := GET,
                            req_path := ''/api/chat/history''\<rparr>) d'
             = (Reply 200 (JsonHistory ?hs), d')"
    using assms(4)
    by (simp add: dispatch_history_get [OF a1] chat_history_get_def with_user_def Let_def
        session_id_eq_numeric [OF assms(5)])
  have m: "mset (map entry ?hs) = mset (map entry (filter ?P (chat_history d))) + mset (appended reqs replies)"
  proof -
    have "mset (map entry ?hs) = image_mset entry (mset ?hs)"
      by simp
    also have "\<dots> = image_mset entry (mset (filter ?P (chat_history d) @ new))"
      by (simp only: order_by_asc_mset f)
    also have "\<dots> = mset (map entry (filter ?P (chat_history d))) + mset (map entry new)"
      by simp
    finally show ?thesis
      by (simp only: new(4))
  qed
  have l: "length ?hs = length (filter ?P (chat_history d))
             + length (filter (\<lambda>rep. rep = Reply 200 JsonSuccess) replies)"
  proof -
    have "length new = length (appended reqs replies)"
      using new(4) by (metis length_map)
    then show ?thesis
      by (simp add: order_by_asc_def f length_appended [OF new(1)])
  qed
  have first: "\<exists>hs. dispatch L c (req\<lparr>q_sessionId := Some q, req_method := GET,
                                 req_path := ''/api/chat/history''\<rparr>) d'
                 = (Reply 200 (JsonHistory hs), d')
             \<and> sorted (map h_created_at hs)
             \<and> mset hs = mset (filter ?P (chat_history d'))
             \<and> mset (map entry hs)
                 = mset (map entry (filter ?P (chat_history d))) + mset (appended reqs replies)
             \<and> length hs
                 = length (filter ?P (chat_history d))
                   + length (filter (\<lambda>rep. rep = Reply 200 JsonSuccess) replies)"
    using g m l order_by_asc_sorted [of h_created_at "filter ?P (chat_history d')"]
      order_by_asc_mset [of h_created_at "filter ?P (chat_history d')"]
    by (intro exI [of _ ?hs]) simp
  have second: "\<exists>hs. dispatch L c (req\<lparr>q_sessionId := None, req_method := GET,
                                 req_path := ''/api/chat/history''\<rparr>) d'
                 = (Reply 200 (JsonHistory hs), d')
             \<and> sorted (map h_created_at hs)
             \<and> mset hs = mset (filter (\<lambda>h. h_user_id h = c_id u) (chat_history d'))"
    by (simp add: dispatch_history_get [OF a2] chat_history_get_def with_user_def Let_def
        order_by_asc_sorted order_by_asc_mset)
  from first second show ?thesis by blast
qed


lemma alice_says_dispatch:
  "dispatch test_libs c (alice_says role content) d
     = chat_history_post test_libs c
         (as_alice\<lparr>b_role := role, b_content := Some content, b_sessionId := Some 1,
            req_method := POST, req_path := ''/api/chat/history'', user := Some alice\<rparr>) d"
  unfolding alice_says_def by (rule dispatch_history_post [OF as_alice_with_body])

lemma alice_says_first:
  "dispatch test_libs (at 10) (alice_says (Some ''user'') ''more'') sample_db
     = (Reply 200 JsonSuccess, db_said)"
  unfolding alice_says_dispatch
  by (simp add: chat_history_post_def with_user_def Let_def fk_user_def fk_session_def
      next_rowid_def sample_db_def db_said_def alice_def test_libs_def at_def)

lemma alice_says_nothing:
  "dispatch test_libs (at 11) (alice_says None ''lost'') db_said
     = (Uncaught ''NOT NULL constraint failed: chat_history.role'', db_said)"
  unfolding alice_says_dispatch
  by (simp add: chat_history_post_def with_user_def)

lemma alice_says_second:
  "dispatch test_libs (at 12) (alice_says (Some ''assistant'') ''sure'') db_said
     = (Reply 200 JsonSuccess, db_answered)"
  unfolding alice_says_dispatch
  by (simp add: chat_history_post_def with_user_def Let_def fk_user_def fk_session_def
      next_rowid_def sample_db_def db_said_def db_answered_def alice_def test_libs_def at_def)

lemma alice_reads_session:
  "chat_history_get test_libs (at 13)
     (as_alice\<lparr>q_sessionId := Some ''1'', req_method := GET, req_path := ''/api/chat/history'',
         user := Some alice\<rparr>) db_answered
   = (Reply 200 (JsonHistory
        [\<lparr>h_id = 1, h_user_id = 1, h_session_id = Some 1, h_role = ''user'',
          h_content = ''hi'', h_created_at = 3\<rparr>,
         \<lparr>h_id = 3, h_user_id = 1, h_session_id = Some 1, h_role = ''assistant'',
          h_content = ''hello'', h_created_at = 5\<rparr>,
         \<lparr>h_id = 5, h_user_id = 1, h_session_id = Some 1, h_role = ''user'',
          h_content = ''more'', h_created_at = 10\<rparr>,
         \<lparr>h_id = 6, h_user_id = 1, h_session_id = Some 1, h_role = ''assistant'',
          h_content = ''sure'', h_created_at = 12\<rparr>]), db_answered)"
  by (simp add: chat_history_get_def with_user_def Let_def session_id_eq_def order_by_asc_def
      sample_db_def db_answered_def alice_def test_libs_def)

lemma alice_reads_all:
  "chat_history_get test_libs (at 13)
     (as_alice\<lparr>q_sessionId := None, req_method := GET, req_path := ''/api/chat/history'',
         user := Some alice\<rparr>) db_answered
   = (Reply 200 (JsonHistory
        [\<lparr>h_id = 1, h_user_id = 1, h_session_id = Some 1, h_role = ''user'',
          h_content = ''hi'', h_created_at = 3\<rparr>,
         \<lparr>h_id = 4, h_user_id = 1, h_session_id = None, h_role = ''user'',
          h_content = ''loose'', h_created_at = 4\<rparr>,
         \<lparr>h_id = 3, h_user_id = 1, h_session_id = Some 1, h_role = ''assistant'',
          h_content = ''hello'', h_created_at = 5\<rparr>,
         \<lparr>h_id = 5, h_user_id = 1, h_session_id = Some 1, h_role = ''user'',
          h_content = ''more'', h_created_at = 10\<rparr>,
         \<lparr>h_id = 6, h_user_id = 1, h_session_id = Some 1, h_role = ''assistant'',
          h_content = ''sure'', h_created_at = 12\<rparr>]), db_answered)"
  by (simp add: chat_history_get_def with_user_def Let_def order_by_asc_def
      sample_db_def db_answered_def alice_def)

theorem history_listing_after_appends_witness:
  "run test_libs sample_db
     [(at 10, alice_says (Some ''user'') ''more''), (at 11, alice_says None ''lost''),
      (at 12, alice_says (Some ''assistant'') ''sure'')]
     = ([Reply 200 JsonSuccess, Uncaught ''NOT NULL constraint failed: chat_history.role'',
         Reply 200 JsonSuccess], db_answered)
   \<and> authenticates test_libs as_alice alice
   \<and> numeric_text test_libs ''1'' = Some 1
   \<and> dispatch test_libs (at 13)
        (as_alice\<lparr>q_sessionId := Some ''1'', req_method := GET, req_path := ''/api/chat/history''\<rparr>)
        db_answered
     = (Reply 200 (JsonHistory
        [\<lparr>h_id = 1, h_user_id = 1, h_session_id = Some 1, h_role = ''user'',
          h_content = ''hi'', h_created_at = 3\<rparr>,
         \<lparr>h_id = 3, h_user_id = 1, h_session_id = Some 1, h_role = ''assistant'',
          h_content = ''hello'', h_created_at = 5\<rparr>,
         \<lparr>h_id = 5, h_user_id = 1, h_session_id = Some 1, h_role = ''user'',
          h_content = ''more'', h_created_at = 10\<rparr>,
         \<lparr>h_id = 6, h_user_id = 1, h_session_id = Some 1, h_role = ''assistant'',
          h_content = ''sure'', h_created_at = 12\<rparr>]), db_answered)
   \<and> dispatch test_libs (at 13)
        (as_alice\<lparr>q_sessionId := None, req_method := GET, req_path := ''/api/chat/history''\<rparr>)
        db_answered
     = (Reply 200 (JsonHistory
        [\<lparr>h_id = 1, h_user_id = 1, h_session_id = Some 1, h_role = ''user'',
          h_content = ''hi'', h_created_at = 3\<rparr>,
         \<lparr>h_id = 4, h_user_id = 1, h_session_id = None, h_role = ''user'',
          h_content = ''loose'', h_created_at = 4\<rparr>,
         \<lparr>h_id = 3, h_user_id = 1, h_session_id = Some 1, h_role = ''assistant'',
          h_content = ''hello'', h_created_at = 5\<rparr>,
         \<lparr>h_id = 5, h_user_id = 1, h_session_id = Some 1, h_role = ''user'',
          h_content = ''more'', h_created_at = 10\<rparr>,
         \<lparr>h_id = 6, h_user_id = 1, h_session_id = Some 1, h_role = ''assistant'',
          h_content = ''sure'', h_created_at = 12\<rparr>]), db_answered)"
proof -
  let ?reqs = "[(at 10, alice_says (Some ''user'') ''more''), (at 11, alice_says None ''lost''),
      (at 12, alice_says (Some ''assistant'') ''sure'')]"
  have r: "run test_libs sample_db ?reqs
     = ([Reply 200 JsonSuccess, Uncaught ''NOT NULL constraint failed: chat_history.role'',
         Reply 200 JsonSuccess], db_answered)"
    by (simp add: alice_says_first alice_says_nothing alice_says_second)
  have s: "\<And>role content. authenticates test_libs (alice_says role content) alice
       \<and> req_method (alice_says role content) = POST
       \<and> req_path (alice_says role content) = ''/api/chat/history''
       \<and> b_sessionId (alice_says role content) = Some 1"
    by (simp add: alice_says_def authenticates_def bearer_def as_alice_def blank_def test_libs_def)
  have h: "\<forall>(c, r) \<in> set ?reqs. authenticates test_libs r alice \<and> req_method r = POST
             \<and> req_path r = ''/api/chat/history'' \<and> b_sessionId r = Some 1"
    using s by simp
  have q: "''1'' \<noteq> []" "numeric_text test_libs ''1'' = Some 1"
    by (simp_all add: test_libs_def)
  have a1: "authenticates test_libs (as_alice\<lparr>q_sessionId := Some ''1''\<rparr>) alice"
    and a2: "authenticates test_libs (as_alice\<lparr>q_sessionId := None\<rparr>) alice"
    using as_alice_authenticates by simp_all
  note t = history_listing_after_appends [OF h r as_alice_authenticates q, of "at 13"]
  show ?thesis
    using t r as_alice_authenticates q(2)
    by (simp add: dispatch_history_get [OF a1] dispatch_history_get [OF a2]
        alice_reads_session alice_reads_all)
qed

section \<open>Isolation between users\<close>

lemma authenticates_unique: "authenticates L r u \<Longrightarrow> authenticates L r v \<Longrightarrow> u = v"
  by (simp add: authenticates_def)

lemma register_own: "own a (snd (auth_register L c req d)) = own a d"
  by (auto simp: auth_register_def own_def Let_def split: sum.splits option.splits)

lemma profile_put_own: "own a (snd (user_profile_put L c req d)) = own a d"
  by (auto simp: user_profile_put_def with_user_def own_def split: option.splits)

lemma sessions_post_own:
  "user req = Some u \<Longrightarrow> c_id u \<noteq> a \<Longrightarrow> own a (snd (chat_sessions_post L c req d)) = own a d"
  by (auto simp: chat_sessions_post_def with_user_def own_def Let_def split: option.splits)

lemma history_post_own:
  "user req = Some u \<Longrightarrow> c_id u \<noteq> a \<Longrightarrow> own a (snd (chat_history_post L c req d)) = own a d"
  by (auto simp: chat_history_post_def with_user_def own_def Let_def split: option.splits)

lemma upload_own:
  "user req = Some u \<Longrightarrow> c_id u \<noteq> a \<Longrightarrow> own a (snd (reports_upload L c req d)) = own a d"
  by (auto simp: reports_upload_def with_user_def own_def Let_def split: option.splits)

lemma other_user_step:
  assumes "authenticates L r b" and "c_id b \<noteq> a"
  shows "own a (snd (dispatch L c r d)) = own a d"
proof (cases L c r d rule: dispatch_cases)
  case unchanged
  then show ?thesis by simp
next
  case register
  then show ?thesis by (simp add: register_own)
next
  case (profile_put u)
  then show ?thesis by (simp add: profile_put_own)
next
  case (sessions_post u)
  with assms have "c_id u \<noteq> a" by (auto dest: authenticates_unique)
  with sessions_post show ?thesis by (simp add: sessions_post_own)
next
  case (history_post u)
  with assms have "c_id u \<noteq> a" by (auto dest: authenticates_unique)
  with history_post show ?thesis by (simp add: history_post_own)
next
  case (upload u)
  with assms have "c_id u \<noteq> a" by (auto dest: authenticates_unique)
  with upload show ?thesis by (simp add: upload_own)
qed

lemma other_user_run:
  assumes "\<forall>(c, r) \<in> set reqs. authenticates L r b" and "c_id b \<noteq> a"
    and "run L d reqs = (rs, d')"
  shows "own a d' = own a d"
  using assms(1,3)
proof (induction reqs arbitrary: d rs d')
  case Nil
  then show ?case by simp
next
  case (Cons x reqs)
  obtain c r where x: "x = (c, r)" by (cases x)
  obtain rep d1 where s: "dispatch L c r d = (rep, d1)" by (cases "dispatch L c r d")
  obtain reps d2 where t: "run L d1 reqs = (reps, d2)" by (cases "run L d1 reqs")
  from Cons.prems(2) x s t have "d' = d2" by simp
  moreover from Cons.prems(1) have "\<forall>(c, r) \<in> set reqs. authenticates L r b" by simp
  from Cons.IH [OF this t] have "own a d2 = own a d1" .
  moreover from Cons.prems(1) x have "authenticates L r b" by simp
  from other_user_step [OF this assms(2), of c d] s have "own a d1 = own a d" by simp
  ultimately show ?case by simp
qed

lemma views_from_own:
  assumes "authenticates L req u"
  shows "dispatch L c (req\<lparr>req_method := GET, req_path := ''/api/chat/sessions''\<rparr>) d
           = (Reply 200 (JsonSessions (order_by_desc s_created_at (fst (own (c_id u) d)))), d)"
    and "dispatch L c (req\<lparr>q_sessionId := q, req_method := GET, req_path := ''/api/chat/history''\<rparr>) d
           = (Reply 200 (JsonHistory
                (if truthy q
                 then order_by_asc h_created_at
                        (filter (\<lambda>h. session_id_eq L (h_session_id h) (the q))
                           (fst (snd (own (c_id u) d))))
                 else order_by_asc h_created_at (fst (snd (own (c_id u) d))))), d)"
    and "dispatch L c (req\<lparr>req_method := GET, req_path := ''/api/reports''\<rparr>) d
           = (Reply 200 (JsonReports (order_by_desc r_created_at (snd (snd (own (c_id u) d))))), d)"
proof -
  have a: "authenticates L (req\<lparr>q_sessionId := q\<rparr>) u"
    using assms by simp
  show "dispatch L c (req\<lparr>req_method := GET, req_path := ''/api/chat/sessions''\<rparr>) d
           = (Reply 200 (JsonSessions (order_by_desc s_created_at (fst (own (c_id u) d)))), d)"
    by (simp add: dispatch_sessions_get [OF assms] chat_sessions_get_def with_user_def own_def)
  show "dispatch L c (req\<lparr>q_sessionId := q, req_method := GET, req_path := ''/api/chat/history''\<rparr>) d
           = (Reply 200 (JsonHistory
                (if truthy q
                 then order_by_asc h_created_at
                        (filter (\<lambda>h. session_id_eq L (h_session_id h) (the q))
                           (fst (snd (own (c_id u) d))))
                 else order_by_asc h_created_at (fst (snd (own (c_id u) d))))), d)"
    by (simp add: dispatch_history_get [OF a] chat_history_get_def with_user_def own_def
        Let_def)
  show "dispatch L c (req\<lparr>req_method := GET, req_path := ''/api/reports''\<rparr>) d
           = (Reply 200 (JsonReports (order_by_desc r_created_at (snd (snd (own (c_id u) d))))), d)"
    by (simp add: dispatch_reports_get [OF assms] reports_get_def with_user_def own_def)
qed

lemma order_by_desc_set [simp]: "set (order_by_desc key rows) = set rows"
  by (simp add: order_by_desc_def)

lemma order_by_asc_set [simp]: "set (order_by_asc key rows) = set rows"
  by (simp add: order_by_asc_def)


text \<open>
  C10. Let A and B be users with different ids, and let B send any sequence of
  authenticated requests (inserts of sessions, messages and reports among them). A's
  GET /api/chat/sessions, GET /api/chat/history (with any \<open>sessionId\<close>, also the id
  of a session of B, or none) and GET /api/reports reply after B's requests what they
  replied before, and every row in these replies is owned by A.
\<close>

theorem listings_isolated_between_users:
  assumes "authenticates L req a" and "c_id b \<noteq> c_id a"
    and "\<forall>(c, r) \<in> set reqs. authenticates L r b"
    and "run L d reqs = (rs, d')"
  shows "fst (dispatch L c (req\<lparr>req_method := GET, req_path := ''/api/chat/sessions''\<rparr>) d')
           = fst (dispatch L c (req\<lparr>req_method := GET, req_path := ''/api/chat/sessions''\<rparr>) d)
       \<and> (\<forall>q. fst (dispatch L c (req\<lparr>q_sessionId := q, req_method := GET, req_path := ''/api/chat/history''\<rparr>) d')
               = fst (dispatch L c (req\<lparr>q_sessionId := q, req_method := GET, req_path := ''/api/chat/history''\<rparr>) d))
       \<and> fst (dispatch L c (req\<lparr>req_method := GET, req_path := ''/api/reports''\<rparr>) d')
           = fst (dispatch L c (req\<lparr>req_method := GET, req_path := ''/api/reports''\<rparr>) d)
       \<and> (\<exists>ss. fst (dispatch L c (req\<lparr>req_method := GET, req_path := ''/api/chat/sessions''\<rparr>) d')
                  = Reply 200 (JsonSessions ss)
               \<and> (\<forall>s\<in>set ss. s_user_id s = c_id a))
       \<and> (\<forall>q. \<exists>hs. fst (dispatch L c (req\<lparr>q_sessionId := q, req_method := GET,
                                            req_path := ''/api/chat/history''\<rparr>) d')
                  = Reply 200 (JsonHistory hs)
               \<and> (\<forall>h\<in>set hs. h_user_id h = c_id a))
       \<and> (\<exists>ps. fst (dispatch L c (req\<lparr>req_method := GET, req_path := ''/api/reports''\<rparr>) d')
                  = Reply 200 (JsonReports ps)
               \<and> (\<forall>p\<in>set ps. r_user_id p = c_id a))"
proof -
  have o: "own (c_id a) d' = own (c_id a) d"
    by (rule other_user_run [OF assms(3,2,4)])
  have same: "fst (dispatch L c (req\<lparr>req_method := GET, req_path := ''/api/chat/sessions''\<rparr>) d')
           = fst (dispatch L c (req\<lparr>req_method := GET, req_path := ''/api/chat/sessions''\<rparr>) d)"
    "\<And>q. fst (dispatch L c (req\<lparr>q_sessionId := q, req_method := GET, req_path := ''/api/chat/history''\<rparr>) d')
               = fst (dispatch L c (req\<lparr>q_sessionId := q, req_method := GET, req_path := ''/api/chat/history''\<rparr>) d)"
    "fst (dispatch L c (req\<lparr>req_method := GET, req_path := ''/api/reports''\<rparr>) d')
           = fst (dispatch L c (req\<lparr>req_method := GET, req_path := ''/api/reports''\<rparr>) d)"
    by (simp_all only: views_from_own [OF assms(1)] o fst_conv)
  have mine: "\<exists>ss. fst (dispatch L c (req\<lparr>req_method := GET, req_path := ''/api/chat/sessions''\<rparr>) d')
                  = Reply 200 (JsonSessions ss)
               \<and> (\<forall>s\<in>set ss. s_user_id s = c_id a)"
    "\<And>q. \<exists>hs. fst (dispatch L c (req\<lparr>q_sessionId := q, req_method := GET,
                                            req_path := ''/api/chat/history''\<rparr>) d')
                  = Reply 200 (JsonHistory hs)
               \<and> (\<forall>h\<in>set hs. h_user_id h = c_id a)"
    "\<exists>ps. fst (dispatch L c (req\<lparr>req_method := GET, req_path := ''/api/reports''\<rparr>) d')
                  = Reply 200 (JsonReports ps)
               \<and> (\<forall>p\<in>set ps. r_user_id p = c_id a)"
    by (simp_all add: views_from_own [OF assms(1)] own_def)
  from same mine show ?thesis
    by blast
qed


lemma bob_says_authenticates: "authenticates test_libs bob_says bob"
  by (simp add: bob_says_def authenticates_def bearer_def as_bob_def blank_def test_libs_def)

lemma bob_says_stored:
  "dispatch test_libs (at 20) bob_says sample_db = (Reply 200 JsonSuccess, db_bob_said)"
proof -
  have a: "authenticates test_libs
      (as_bob\<lparr>b_role := Some ''user'', b_content := Some ''mine'', b_sessionId := Some 1\<rparr>) bob"
    by (simp add: authenticates_def bearer_def as_bob_def blank_def test_libs_def)
  show ?thesis
    unfolding bob_says_def dispatch_history_post [OF a]
    by (simp add: chat_history_post_def with_user_def Let_def fk_user_def fk_session_def
        next_rowid_def sample_db_def db_bob_said_def bob_def test_libs_def at_def)
qed

lemma alice_session_1:
  "chat_history_get test_libs (at 21)
     (as_alice\<lparr>q_sessionId := Some ''1'', req_method := GET, req_path := ''/api/chat/history'',
         user := Some alice\<rparr>) db_bob_said
   = (Reply 200 (JsonHistory
        [\<lparr>h_id = 1, h_user_id = 1, h_session_id = Some 1, h_role = ''user'',
          h_content = ''hi'', h_created_at = 3\<rparr>,
         \<lparr>h_id = 3, h_user_id = 1, h_session_id = Some 1, h_role = ''assistant'',
          h_content = ''hello'', h_created_at = 5\<rparr>]), db_bob_said)"
  by (simp add: chat_history_get_def with_user_def Let_def session_id_eq_def order_by_asc_def
      sample_db_def db_bob_said_def alice_def test_libs_def)

lemma alice_session_2:
  "chat_history_get test_libs (at 21)
     (as_alice\<lparr>q_sessionId := Some ''2'', req_method := GET, req_path := ''/api/chat/history'',
         user := Some alice\<rparr>) db_bob_said
   = (Reply 200 (JsonHistory []), db_bob_said)"
  by (simp add: chat_history_get_def with_user_def Let_def session_id_eq_def order_by_asc_def
      sample_db_def db_bob_said_def alice_def test_libs_def)

theorem listings_isolated_between_users_witness:
  "authenticates test_libs as_alice alice \<and> authenticates test_libs bob_says bob
   \<and> c_id alice = 1 \<and> c_id bob = 2
   \<and> run test_libs sample_db [(at 20, bob_says)] = ([Reply 200 JsonSuccess], db_bob_said)
   \<and> fst (dispatch test_libs (at 21)
        (as_alice\<lparr>q_sessionId := Some ''1'', req_method := GET, req_path := ''/api/chat/history''\<rparr>)
        db_bob_said)
     = Reply 200 (JsonHistory
        [\<lparr>h_id = 1, h_user_id = 1, h_session_id = Some 1, h_role = ''user'',
          h_content = ''hi'', h_created_at = 3\<rparr>,
         \<lparr>h_id = 3, h_user_id = 1, h_session_id = Some 1, h_role = ''assistant'',
          h_content = ''hello'', h_created_at = 5\<rparr>])
   \<and> fst (dispatch test_libs (at 21)
        (as_alice\<lparr>q_sessionId := Some ''1'', req_method := GET, req_path := ''/api/chat/history''\<rparr>)
        sample_db)
     = Reply 200 (JsonHistory
        [\<lparr>h_id = 1, h_user_id = 1, h_session_id = Some 1, h_role = ''user'',
          h_content = ''hi'', h_created_at = 3\<rparr>,
         \<lparr>h_id = 3, h_user_id = 1, h_session_id = Some 1, h_role = ''assistant'',
          h_content = ''hello'', h_created_at = 5\<rparr>])
   \<and> fst (dispatch test_libs (at 21)
        (as_alice\<lparr>q_sessionId := Some ''2'', req_method := GET, req_path := ''/api/chat/history''\<rparr>)
        db_bob_said)
     = Reply 200 (JsonHistory [])"
proof -
  have r: "run test_libs sample_db [(at 20, bob_says)] = ([Reply 200 JsonSuccess], db_bob_said)"
    by (simp add: bob_says_stored)
  have n: "c_id bob \<noteq> c_id alice" "c_id alice = 1" "c_id bob = 2"
    by (simp_all add: alice_def bob_def)
  have b: "\<forall>(c, r) \<in> set [(at 20, bob_says)]. authenticates test_libs r bob"
    by (simp add: bob_says_authenticates)
  have a1: "authenticates test_libs (as_alice\<lparr>q_sessionId := Some ''1''\<rparr>) alice"
    and a2: "authenticates test_libs (as_alice\<lparr>q_sessionId := Some ''2''\<rparr>) alice"
    using as_alice_authenticates by simp_all
  have v1: "fst (dispatch test_libs (at 21)
        (as_alice\<lparr>q_sessionId := Some ''1'', req_method := GET, req_path := ''/api/chat/history''\<rparr>)
        db_bob_said)
     = Reply 200 (JsonHistory
        [\<lparr>h_id = 1, h_user_id = 1, h_session_id = Some 1, h_role = ''user'',
          h_content = ''hi'', h_created_at = 3\<rparr>,
         \<lparr>h_id = 3, h_user_id = 1, h_session_id = Some 1, h_role = ''assistant'',
          h_content = ''hello'', h_created_at = 5\<rparr>])"
    by (simp only: dispatch_history_get [OF a1] alice_session_1 fst_conv)
  have v2: "fst (dispatch test_libs (at 21)
        (as_alice\<lparr>q_sessionId := Some ''2'', req_method := GET, req_path := ''/api/chat/history''\<rparr>)
        db_bob_said)
     = Reply 200 (JsonHistory [])"
    by (simp only: dispatch_history_get [OF a2] alice_session_2 fst_conv)
  note t = listings_isolated_between_users [OF as_alice_authenticates n(1) b r, of "at 21"]
  from t have "fst (dispatch test_libs (at 21)
        (as_alice\<lparr>q_sessionId := Some ''1'', req_method := GET, req_path := ''/api/chat/history''\<rparr>)
        db_bob_said)
      = fst (dispatch test_libs (at 21)
        (as_alice\<lparr>q_sessionId := Some ''1'', req_method := GET, req_path := ''/api/chat/history''\<rparr>)
        sample_db)"
    by blast
  then show ?thesis
    using v1 v2 r n(2,3) as_alice_authenticates bob_says_authenticates by simp
qed

end
